theory Spec2Isabelle
  imports Main "HOL-Library.Sublist"
begin

section \<open>Data model (src/types/index.ts)\<close>

text \<open>
  Every interface of the source is a record. TypeScript lets several interfaces share a
  field name; record fields are global constants, so a field that occurs in more than one
  interface carries a one-letter prefix of its interface (\<open>i_\<close> Item, \<open>a_\<close> ApiListing,
  \<open>s_\<close> the selling/buying side of a Listing, \<open>l_\<close> Listing, \<open>d_\<close> DbListing,
  \<open>p_\<close> DbPostedListing). A JavaScript number that the program only copies or compares
  is an \<open>int\<close>; a value that may be \<open>null\<close> or \<open>undefined\<close> is an \<open>option\<close>; a number
  that may be \<open>NaN\<close> is an \<open>int option\<close> with \<open>None\<close> for \<open>NaN\<close>. Strings are
  \<open>string\<close>, read as ASCII text.
\<close>

datatype exn =
  Error string
  | TypeError string
  | SqliteError string
  | Rejected string
  | ValidationError string
  | ERR_UNHANDLED_ERROR

record Item =
  i_id :: string
  i_name :: string
  i_icon :: string
  i_rarity :: "string option"
  i_item_type :: "string option"

record UserProfile =
  full_name :: string
  username :: string
  avatar_url :: "string option"
  embark_id :: string

datatype ListingType = Buy | Sell

record ApiListing =
  a_id :: string
  listing_type :: ListingType
  a_user_id :: string
  a_status :: string
  a_description :: "string option"
  a_created_at :: string
  a_updated_at :: string
  item_id :: string
  item :: Item
  quantity :: int
  price :: "int option"
  wanted_item_id :: "string option"
  wanted_item :: "Item option"
  wanted_quantity :: "int option"
  a_user_profile :: UserProfile

text \<open>
  The two sides of a Listing. The interface declares \<open>id: string\<close> and
  \<open>amount: number\<close>, but \<open>transformApiListing\<close> fills them from
  \<open>wanted_item_id!\<close> and \<open>wanted_quantity!\<close>: the non-null assertion is erased by the
  compiler, so at run time both can hold \<open>null\<close>. The fields are therefore options.
\<close>

record Side =
  s_id :: "string option"
  s_amount :: "int option"
  s_name :: string
  s_icon :: string
  s_rarity :: "string option"

record Listing =
  l_id :: string
  l_type :: ListingType
  l_user_id :: string
  l_status :: string
  l_description :: "string option"
  l_created_at :: string
  l_updated_at :: string
  selling :: Side
  buying :: Side
  l_user_profile :: UserProfile

record ListingBatch =
  batch_number :: nat
  listings :: "Listing list"
  created_at :: int

record ButtonData =
  action :: string
  listing_id :: string
  batch_position :: "int option"

record Config =
  discord_token :: string
  discord_channelId :: string
  polling_interval :: "int option"
  database_path :: string
  logging_level :: string
  autoPurchase_enabled :: bool

section \<open>JavaScript library functions the source calls\<close>

text \<open>\<open>a || b\<close> on a possibly undefined string: the empty string is falsy too.\<close>

definition or_default :: "string option \<Rightarrow> string \<Rightarrow> string" where
  "or_default v d = (case v of None \<Rightarrow> d | Some s \<Rightarrow> if s = [] then d else s)"

definition is_digit :: "char \<Rightarrow> bool" where
  "is_digit c = (48 \<le> (of_char c :: nat) \<and> (of_char c :: nat) \<le> 57)"

definition digit_val :: "char \<Rightarrow> nat" where
  "digit_val c = of_char c - 48"

definition digit_char :: "nat \<Rightarrow> char" where
  "digit_char d = char_of (48 + d)"

definition is_white :: "char \<Rightarrow> bool" where
  "is_white c = ((of_char c :: nat) \<in> {9, 10, 11, 12, 13, 32})"

definition digits_value :: "string \<Rightarrow> nat" where
  "digits_value ds = foldl (\<lambda>acc c. 10 * acc + digit_val c) 0 ds"

text \<open>
  \<open>parseInt(s, 10)\<close>: leading white space is skipped, one sign is read, the longest
  prefix of decimal digits is the value, and no digit at all gives \<open>NaN\<close> (\<open>None\<close>).
\<close>

definition parseInt10 :: "string \<Rightarrow> int option" where
  "parseInt10 s =
     (let t = dropWhile is_white s;
          neg = (t \<noteq> [] \<and> hd t = CHR ''-'');
          u = (if t \<noteq> [] \<and> (hd t = CHR ''-'' \<or> hd t = CHR ''+'') then tl t else t);
          z = takeWhile is_digit u
      in if z = [] then None
         else Some (if neg then - int (digits_value z) else int (digits_value z)))"

text \<open>The decimal text of a non-negative integer, as a template literal prints it.\<close>

fun showNat :: "nat \<Rightarrow> string" where
  "showNat n = (if n < 10 then [digit_char n] else showNat (n div 10) @ [digit_char (n mod 10)])"

text \<open>\<open>s.split(sep)\<close> for a one-character separator: never an empty array.\<close>

fun split :: "char \<Rightarrow> string \<Rightarrow> string list" where
  "split sep [] = [[]]"
| "split sep (c # cs) =
     (if c = sep then [] # split sep cs
      else (case split sep cs of [] \<Rightarrow> [[c]] | p # ps \<Rightarrow> (c # p) # ps))"

text \<open>\<open>xs.slice(s, e)\<close> for \<open>0 \<le> s \<le> e\<close>: the end is clamped to the length.\<close>

definition slice :: "'a list \<Rightarrow> nat \<Rightarrow> nat \<Rightarrow> 'a list" where
  "slice xs s e = take (e - s) (drop s xs)"

section \<open>Listing transform and diff (api/metaforge.ts)\<close>

definition seeds_icon :: string where
  "seeds_icon = ''https://cdn.metaforge.app/arc-raiders/icons/assorted-seeds.webp''"

text \<open>
  \<open>transformApiListing\<close>. Reading \<open>wanted_item!.name\<close> of a \<open>null\<close> wanted item
  throws a TypeError; a \<open>null\<close> \<open>wanted_item_id\<close> or \<open>wanted_quantity\<close> is copied.
\<close>

definition transformApiListing :: "ApiListing \<Rightarrow> exn + Listing" where
  "transformApiListing apiListing =
     (let sides =
        (if listing_type apiListing = Sell then
           (let sellingSide = \<lparr> s_id = Some (item_id apiListing),
                                s_amount = Some (quantity apiListing),
                                s_name = i_name (item apiListing),
                                s_icon = i_icon (item apiListing),
                                s_rarity = i_rarity (item apiListing) \<rparr>
            in (case price apiListing of
                  Some pr \<Rightarrow>
                    Inr (sellingSide,
                         \<lparr> s_id = Some ''assorted-seeds'', s_amount = Some pr,
                           s_name = ''Assorted Seeds'', s_icon = seeds_icon,
                           s_rarity = None \<rparr>)
                | None \<Rightarrow>
                    (case wanted_item apiListing of
                       None \<Rightarrow> Inl (TypeError ''Cannot read properties of null'')
                     | Some wi \<Rightarrow>
                         Inr (sellingSide,
                              \<lparr> s_id = wanted_item_id apiListing,
                                s_amount = wanted_quantity apiListing,
                                s_name = i_name wi, s_icon = i_icon wi,
                                s_rarity = i_rarity wi \<rparr>))))
         else
           (let buyingSide = \<lparr> s_id = Some (item_id apiListing),
                               s_amount = Some (quantity apiListing),
                               s_name = i_name (item apiListing),
                               s_icon = i_icon (item apiListing),
                               s_rarity = i_rarity (item apiListing) \<rparr>
            in (case price apiListing of
                  Some pr \<Rightarrow>
                    Inr (\<lparr> s_id = Some ''assorted-seeds'', s_amount = Some pr,
                           s_name = ''Assorted Seeds'', s_icon = seeds_icon,
                           s_rarity = None \<rparr>,
                         buyingSide)
                | None \<Rightarrow>
                    (case wanted_item apiListing of
                       None \<Rightarrow> Inl (TypeError ''Cannot read properties of null'')
                     | Some wi \<Rightarrow>
                         Inr (\<lparr> s_id = wanted_item_id apiListing,
                                s_amount = wanted_quantity apiListing,
                                s_name = i_name wi, s_icon = i_icon wi,
                                s_rarity = i_rarity wi \<rparr>,
                              buyingSide)))))
      in (case sides of
            Inl e \<Rightarrow> Inl e
          | Inr (sellingSide, buyingSide) \<Rightarrow>
              Inr \<lparr> l_id = a_id apiListing,
                    l_type = listing_type apiListing,
                    l_user_id = a_user_id apiListing,
                    l_status = a_status apiListing,
                    l_description = a_description apiListing,
                    l_created_at = a_created_at apiListing,
                    l_updated_at = a_updated_at apiListing,
                    selling = sellingSide,
                    buying = buyingSide,
                    l_user_profile = a_user_profile apiListing \<rparr>))"

text \<open>
  \<open>listings.map(transformApiListing)\<close>: the first record whose transform throws ends
  the whole map with that exception.
\<close>

fun map_transform :: "ApiListing list \<Rightarrow> exn + Listing list" where
  "map_transform [] = Inr []"
| "map_transform (r # rs) =
     (case transformApiListing r of
        Inl e \<Rightarrow> Inl e
      | Inr l \<Rightarrow>
          (case map_transform rs of
             Inl e \<Rightarrow> Inl e
           | Inr ls \<Rightarrow> Inr (l # ls)))"

text \<open>\<open>getNewListings\<close>: \<open>Set.has\<close> is set membership.\<close>

definition getNewListings :: "Listing list \<Rightarrow> string set \<Rightarrow> Listing list" where
  "getNewListings fetchedListings existingListingIds =
     filter (\<lambda>listing. \<not> (l_id listing \<in> existingListingIds)) fetchedListings"

section \<open>Batching and buttons (bot/formatters.ts)\<close>

definition LISTINGS_PER_BATCH :: nat where
  "LISTINGS_PER_BATCH = 5"

text \<open>
  The \<open>for\<close> loop of \<open>createListingBatches\<close>, with its variables \<open>i\<close>,
  \<open>batchNumber\<close> and \<open>batches\<close>. \<open>new Date()\<close> reads the clock once per batch:
  \<open>clock k\<close> is the reading taken while batch number \<open>k\<close> is built.
\<close>

function createListingBatches_loop ::
  "(nat \<Rightarrow> int) \<Rightarrow> Listing list \<Rightarrow> nat \<Rightarrow> nat \<Rightarrow> ListingBatch list \<Rightarrow> ListingBatch list" where
  "createListingBatches_loop clock ls i batchNumber batches =
     (if i < length ls then
        createListingBatches_loop clock ls (i + LISTINGS_PER_BATCH) (batchNumber + 1)
          (batches @ [\<lparr> batch_number = batchNumber,
                        listings = slice ls i (i + LISTINGS_PER_BATCH),
                        created_at = clock batchNumber \<rparr>])
      else batches)"
  by pat_completeness auto
termination
  by (relation "measure (\<lambda>(clock, ls, i, batchNumber, batches). length ls - i)")
     (auto simp: LISTINGS_PER_BATCH_def)

definition createListingBatches :: "(nat \<Rightarrow> int) \<Rightarrow> Listing list \<Rightarrow> ListingBatch list" where
  "createListingBatches clock ls = createListingBatches_loop clock ls 0 1 []"

text \<open>
  A button as \<open>createBatchButtons\<close> builds it: the custom id, the label and the index
  of the number emoji in \<open>NUMBER_EMOJIS\<close>. The discord.js \<open>ButtonBuilder\<close> checks what
  it is given and throws on a value it refuses: \<open>setCustomId\<close> on a custom id of more
  than 100 characters, \<open>setEmoji\<close> on \<open>undefined\<close>, which is what
  \<open>NUMBER_EMOJIS[i]\<close> is from index 5 on. The calls are made in this order for each
  listing in turn, so the first refused value ends the loop with the exception. (The
  label \<open>Buy Item n\<close> is never refused: the limit is 80 characters and the loop does
  not get past the sixth listing.)
\<close>

record Button =
  customId :: string
  label :: string
  emoji :: nat

definition makeCustomId :: "Listing \<Rightarrow> nat \<Rightarrow> string" where
  "makeCustomId listing position = ''buy:'' @ l_id listing @ '':'' @ showNat position"

fun createBatchButtons_loop :: "Listing list \<Rightarrow> nat \<Rightarrow> Button list \<Rightarrow> exn + Button list" where
  "createBatchButtons_loop [] i buttons = Inr buttons"
| "createBatchButtons_loop (listing # rest) i buttons =
     (if 100 < length (makeCustomId listing (i + 1)) then
        Inl (ValidationError ''custom id of more than 100 characters'')
      else if \<not> i < 5 then Inl (ValidationError ''emoji undefined'')
      else createBatchButtons_loop rest (i + 1)
             (buttons @ [\<lparr> customId = makeCustomId listing (i + 1),
                           label = ''Buy Item '' @ showNat (i + 1),
                           emoji = i \<rparr>]))"

definition createBatchButtons :: "ListingBatch \<Rightarrow> exn + Button list" where
  "createBatchButtons batch = createBatchButtons_loop (listings batch) 0 []"

definition parseButtonCustomId :: "string \<Rightarrow> ButtonData option" where
  "parseButtonCustomId cid =
     (let parts = split CHR '':'' cid
      in if length parts \<noteq> 3 \<or> parts ! 0 \<noteq> ''buy'' then None
         else Some \<lparr> action = ''buy'',
                     listing_id = parts ! 1,
                     batch_position = parseInt10 (parts ! 2) \<rparr>)"

section \<open>Configuration (utils/config.ts)\<close>

definition validLogLevels :: "string list" where
  "validLogLevels = [''debug'', ''info'', ''warn'', ''error'']"

text \<open>
  \<open>loadConfig\<close> over \<open>process.env\<close>. The two \<open>if\<close> statements that validate the log
  level and the poll interval only write a warning to the temporary logger, so they
  leave no trace in the value; the log level is replaced by its default when the object
  is built, the poll interval is stored as parsed.
\<close>

definition loadConfig :: "(string \<Rightarrow> string option) \<Rightarrow> exn + Config" where
  "loadConfig env =
     (let discordToken = env ''DISCORD_BOT_TOKEN'';
          discordChannelId = env ''DISCORD_CHANNEL_ID''
      in if discordToken = None \<or> discordToken = Some [] then
           Inl (Error ''DISCORD_BOT_TOKEN is required. Please set it in your .env file.'')
         else if discordChannelId = None \<or> discordChannelId = Some [] then
           Inl (Error ''DISCORD_CHANNEL_ID is required. Please set it in your .env file.'')
         else
           (let pollInterval = parseInt10 (or_default (env ''POLL_INTERVAL'') ''5000'');
                databasePath = or_default (env ''DATABASE_PATH'') ''./data/listings.db'';
                logLevel = or_default (env ''LOG_LEVEL'') ''info'';
                autoPurchaseEnabled = (env ''AUTO_PURCHASE_ENABLED'' \<noteq> Some ''false'')
            in Inr \<lparr> discord_token = the discordToken,
                     discord_channelId = the discordChannelId,
                     polling_interval = pollInterval,
                     database_path = databasePath,
                     logging_level =
                       (if logLevel \<in> set validLogLevels then logLevel else ''info''),
                     autoPurchase_enabled = autoPurchaseEnabled \<rparr>))"

section \<open>The event emitter (utils/events.ts)\<close>

text \<open>
  \<open>botEvents\<close> is a Node.js \<open>EventEmitter\<close>. \<open>emit\<close> calls the listeners of the event
  one after the other, and an exception of a listener leaves \<open>emit\<close>. The event named
  \<open>'error'\<close> (\<open>BotEvent.ERROR\<close>) is special in Node.js: emitted while no listener is
  registered for it, \<open>emit\<close> itself throws (\<open>ERR_UNHANDLED_ERROR\<close> when the argument is
  not an \<open>Error\<close> object, as the payload of \<open>emitError\<close> is). A listener is modelled by
  what it does to its caller: \<open>None\<close> when it returns, \<open>Some e\<close> when it throws \<open>e\<close>.
\<close>

datatype BotEvent =
  BOT_READY | NEW_LISTING | NEW_LISTINGS_BATCH | LISTING_POSTED | BATCH_POSTED
  | PURCHASE_BUTTON_CLICKED | ERROR

section \<open>Persistent state (database/db.ts, database/schema.sql)\<close>

record DbListingCore =
  d_id :: string
  d_type :: ListingType
  d_user_id :: string
  d_status :: string
  d_description :: "string option"
  selling_id :: "string option"
  selling_name :: string
  selling_icon :: string
  selling_amount :: "int option"
  buying_id :: "string option"
  buying_name :: string
  buying_icon :: string
  buying_amount :: "int option"
  user_full_name :: string
  user_username :: string
  user_avatar_url :: "string option"
  user_embark_id :: string
  d_created_at :: string
  d_updated_at :: string

record DbListing = DbListingCore +
  fetched_at :: string
  posted_to_discord :: nat

record DbPostedListing =
  p_listing_id :: string
  p_message_id :: string
  p_channel_id :: string
  p_batch_number :: nat
  p_batch_position :: nat
  p_posted_at :: string

text \<open>The two tables the polling cycle reads and writes, rows in insertion order.\<close>

record Database =
  listings_table :: "DbListing list"
  posted_listings :: "DbPostedListing list"

section \<open>Messages (bot/formatters.ts)\<close>

text \<open>
  An embed is kept as the data it is rendered from: the batch number of its title, the
  listings of its description with the position each is numbered with
  (\<open>formatListingEntry(listing, index + 1)\<close>), and its timestamp.
\<close>

record Embed =
  e_batchNumber :: nat
  e_entries :: "(nat \<times> Listing) list"
  e_timestamp :: int

definition createBatchEmbed :: "ListingBatch \<Rightarrow> Embed" where
  "createBatchEmbed batch =
     \<lparr> e_batchNumber = batch_number batch,
       e_entries = map (\<lambda>index. (index + 1, listings batch ! index))
                       [0 ..< length (listings batch)],
       e_timestamp = created_at batch \<rparr>"

definition recreateBatchEmbed :: "Listing list \<Rightarrow> nat \<Rightarrow> int \<Rightarrow> Embed" where
  "recreateBatchEmbed ls batchNumber date =
     \<lparr> e_batchNumber = batchNumber,
       e_entries = map (\<lambda>index. (index + 1, ls ! index)) [0 ..< length ls],
       e_timestamp = date \<rparr>"

section \<open>The process state and its environment\<close>

text \<open>
  Every interaction with the outside (an HTTP request, a statement that writes to the
  database, a Discord request, an emitted event) is appended to \<open>effects\<close>, in program
  order. Console output of the logger is not part of the state.
\<close>

datatype Effect =
  HttpGet ListingType
  | ListingInserted string
  | StatusUpdated string string
  | PostedInserted DbPostedListing
  | MarkedPosted "string list"
  | ChannelFetched string
  | MessageSent string Embed "Button list"
  | MessageFetched string string
  | MessageEdited string Embed
  | Emitted BotEvent

record Stats =
  totalPollsCompleted :: nat
  totalListingsFetched :: nat
  totalNewListingsDetected :: nat
  totalBatchesPosted :: nat

record World =
  isProcessing :: bool
  stats :: Stats
  db :: "Database option"
  discordClient :: bool
  listeners :: "BotEvent \<Rightarrow> exn option list"
  effects :: "Effect list"

text \<open>
  What the outside answers during one cycle: the two HTTP responses, the parsed time of
  a timestamp (\<open>new Date(s).getTime()\<close>), the clock (\<open>now\<close> as an ISO string, \<open>clock k\<close>
  the \<open>Date\<close> read while batch \<open>k\<close> is built or rebuilt), and the Discord API:
  \<open>channels_fetch\<close> gives \<open>None\<close> for no channel and \<open>Some t\<close> for a channel whose
  \<open>isTextBased()\<close> is \<open>t\<close>, \<open>channel_send\<close> the id of the sent message,
  \<open>messages_fetch\<close> whether a message came back. \<open>Inl\<close> is a rejected promise.
\<close>

record Env =
  config :: Config
  axios_get :: "ListingType \<Rightarrow> exn + ApiListing list"
  getTime :: "string \<Rightarrow> int"
  now :: string
  clock :: "nat \<Rightarrow> int"
  channels_fetch :: "string \<Rightarrow> exn + bool option"
  channel_send :: "string \<Rightarrow> nat \<Rightarrow> exn + string"
  messages_fetch :: "string \<Rightarrow> string \<Rightarrow> exn + bool"
  message_edit :: "string \<Rightarrow> exn + unit"

definition emit :: "BotEvent \<Rightarrow> World \<Rightarrow> (exn + unit) \<times> World" where
  "emit ev w =
     (let w' = w\<lparr> effects := effects w @ [Emitted ev] \<rparr>
      in if ev = ERROR \<and> listeners w ERROR = [] then (Inl ERR_UNHANDLED_ERROR, w')
         else (case List.find (\<lambda>h. h \<noteq> None) (listeners w ev) of
                 Some (Some e) \<Rightarrow> (Inl e, w')
               | _ \<Rightarrow> (Inr (), w')))"

definition emitError :: "exn \<Rightarrow> World \<Rightarrow> (exn + unit) \<times> World" where
  "emitError error w = emit ERROR w"

definition emitNewListingsBatch :: "Listing list \<Rightarrow> World \<Rightarrow> (exn + unit) \<times> World" where
  "emitNewListingsBatch ls w = emit NEW_LISTINGS_BATCH w"

definition emitNewListing :: "Listing \<Rightarrow> World \<Rightarrow> (exn + unit) \<times> World" where
  "emitNewListing listing w = emit NEW_LISTING w"

definition emitBatchPosted :: "Listing list \<Rightarrow> nat \<Rightarrow> World \<Rightarrow> (exn + unit) \<times> World" where
  "emitBatchPosted ls batchNumber w = emit BATCH_POSTED w"

definition emitListingPosted :: "Listing \<Rightarrow> World \<Rightarrow> (exn + unit) \<times> World" where
  "emitListingPosted listing w = emit LISTING_POSTED w"

text \<open>\<open>xs.forEach(f)\<close> and \<open>for (const x of xs)\<close>: the first exception ends the loop.\<close>

fun forEach :: "('a \<Rightarrow> World \<Rightarrow> (exn + unit) \<times> World) \<Rightarrow> 'a list \<Rightarrow> World \<Rightarrow> (exn + unit) \<times> World" where
  "forEach f [] w = (Inr (), w)"
| "forEach f (x # xs) w =
     (case f x w of
        (Inl e, w') \<Rightarrow> (Inl e, w')
      | (Inr u, w') \<Rightarrow> forEach f xs w')"

section \<open>Database operations (database/db.ts)\<close>

definition getDatabase :: "World \<Rightarrow> exn + Database" where
  "getDatabase w =
     (case db w of
        None \<Rightarrow> Inl (Error ''Database not initialized. Call initializeDatabase() first.'')
      | Some d \<Rightarrow> Inr d)"

definition listingToDbListing :: "Listing \<Rightarrow> DbListingCore" where
  "listingToDbListing listing =
     \<lparr> d_id = l_id listing,
       d_type = l_type listing,
       d_user_id = l_user_id listing,
       d_status = l_status listing,
       d_description = l_description listing,
       selling_id = s_id (selling listing),
       selling_name = s_name (selling listing),
       selling_icon = s_icon (selling listing),
       selling_amount = s_amount (selling listing),
       buying_id = s_id (buying listing),
       buying_name = s_name (buying listing),
       buying_icon = s_icon (buying listing),
       buying_amount = s_amount (buying listing),
       user_full_name = full_name (l_user_profile listing),
       user_username = username (l_user_profile listing),
       user_avatar_url =
         (case avatar_url (l_user_profile listing) of
            None \<Rightarrow> None
          | Some u \<Rightarrow> if u = [] then None else Some u),
       user_embark_id = embark_id (l_user_profile listing),
       d_created_at = l_created_at listing,
       d_updated_at = l_updated_at listing \<rparr>"

definition dbListingToListing :: "DbListing \<Rightarrow> Listing" where
  "dbListingToListing dbListing =
     \<lparr> l_id = d_id dbListing,
       l_type = d_type dbListing,
       l_user_id = d_user_id dbListing,
       l_status = d_status dbListing,
       l_description = d_description dbListing,
       l_created_at = d_created_at dbListing,
       l_updated_at = d_updated_at dbListing,
       selling = \<lparr> s_id = selling_id dbListing, s_amount = selling_amount dbListing,
                   s_name = selling_name dbListing, s_icon = selling_icon dbListing,
                   s_rarity = None \<rparr>,
       buying = \<lparr> s_id = buying_id dbListing, s_amount = buying_amount dbListing,
                  s_name = buying_name dbListing, s_icon = buying_icon dbListing,
                  s_rarity = None \<rparr>,
       l_user_profile =
         \<lparr> full_name = user_full_name dbListing,
           username = user_username dbListing,
           avatar_url =
             (case user_avatar_url dbListing of
                None \<Rightarrow> None
              | Some u \<Rightarrow> if u = [] then None else Some u),
           embark_id = user_embark_id dbListing \<rparr> \<rparr>"

text \<open>
  \<open>insertListing\<close>. \<open>getDatabase()\<close> is called before the \<open>try\<close>. The \<open>INSERT\<close>
  fails with \<open>SQLITE_CONSTRAINT_NOTNULL\<close> on a \<open>null\<close> in a \<open>NOT NULL\<close> column (only the
  four nullable side fields can hold one) and with \<open>SQLITE_CONSTRAINT_PRIMARYKEY\<close> on a
  known id; the \<open>catch\<close> turns the second into \<open>false\<close> and rethrows every other error.
  A stored row has \<open>fetched_at\<close> set to the current time and \<open>posted_to_discord = 0\<close>.
\<close>

definition insertListing :: "Env \<Rightarrow> Listing \<Rightarrow> World \<Rightarrow> (exn + bool) \<times> World" where
  "insertListing env listing w =
     (case getDatabase w of
        Inl e \<Rightarrow> (Inl e, w)
      | Inr database \<Rightarrow>
          (let dbListing = listingToDbListing listing
           in if selling_id dbListing = None \<or> selling_amount dbListing = None
                 \<or> buying_id dbListing = None \<or> buying_amount dbListing = None
              then (Inl (SqliteError ''SQLITE_CONSTRAINT_NOTNULL''), w)
              else if d_id dbListing \<in> d_id ` set (listings_table database)
              then (Inr False, w)
              else
                (Inr True,
                 w\<lparr> db := Some (database\<lparr> listings_table := listings_table database @
                        [\<lparr> d_id = d_id dbListing, d_type = d_type dbListing,
                           d_user_id = d_user_id dbListing, d_status = d_status dbListing,
                           d_description = d_description dbListing,
                           selling_id = selling_id dbListing,
                           selling_name = selling_name dbListing,
                           selling_icon = selling_icon dbListing,
                           selling_amount = selling_amount dbListing,
                           buying_id = buying_id dbListing,
                           buying_name = buying_name dbListing,
                           buying_icon = buying_icon dbListing,
                           buying_amount = buying_amount dbListing,
                           user_full_name = user_full_name dbListing,
                           user_username = user_username dbListing,
                           user_avatar_url = user_avatar_url dbListing,
                           user_embark_id = user_embark_id dbListing,
                           d_created_at = d_created_at dbListing,
                           d_updated_at = d_updated_at dbListing,
                           fetched_at = now env, posted_to_discord = 0 \<rparr>] \<rparr>),
                    effects := effects w @ [ListingInserted (d_id dbListing)] \<rparr>)))"

fun insertListings_loop :: "Env \<Rightarrow> Listing list \<Rightarrow> nat \<Rightarrow> World \<Rightarrow> (exn + nat) \<times> World" where
  "insertListings_loop env [] insertedCount w = (Inr insertedCount, w)"
| "insertListings_loop env (listing # rest) insertedCount w =
     (case insertListing env listing w of
        (Inl e, w') \<Rightarrow> (Inl e, w')
      | (Inr inserted, w') \<Rightarrow>
          insertListings_loop env rest
            (if inserted then insertedCount + 1 else insertedCount) w')"

definition insertListings :: "Env \<Rightarrow> Listing list \<Rightarrow> World \<Rightarrow> (exn + nat) \<times> World" where
  "insertListings env ls w = insertListings_loop env ls 0 w"

definition listingExists :: "Database \<Rightarrow> string \<Rightarrow> bool" where
  "listingExists database listingId = (listingId \<in> d_id ` set (listings_table database))"

definition getListingById :: "Database \<Rightarrow> string \<Rightarrow> Listing option" where
  "getListingById database listingId =
     (case List.find (\<lambda>row. d_id row = listingId) (listings_table database) of
        None \<Rightarrow> None
      | Some row \<Rightarrow> Some (dbListingToListing row))"

text \<open>
  \<open>markListingsAsPosted\<close>: nothing at all for an empty list (the return precedes
  \<open>getDatabase()\<close>), else one \<open>UPDATE\<close> of the rows whose id is in the list.
\<close>

definition markListingsAsPosted :: "string list \<Rightarrow> World \<Rightarrow> (exn + unit) \<times> World" where
  "markListingsAsPosted listingIds w =
     (if listingIds = [] then (Inr (), w)
      else (case getDatabase w of
              Inl e \<Rightarrow> (Inl e, w)
            | Inr database \<Rightarrow>
                (Inr (),
                 w\<lparr> db := Some (database\<lparr> listings_table :=
                        map (\<lambda>row. if d_id row \<in> set listingIds
                                    then row\<lparr> posted_to_discord := 1 \<rparr> else row)
                            (listings_table database) \<rparr>),
                    effects := effects w @ [MarkedPosted listingIds] \<rparr>)))"

text \<open>
  \<open>insertPostedListing\<close>. The primary key is \<open>listing_id\<close>; a second row for a listing
  is the constraint error the \<open>catch\<close> swallows. \<open>listing_id\<close> references
  \<open>listings(id)\<close> and foreign keys are on, so a row for an unknown listing fails with
  \<open>SQLITE_CONSTRAINT_FOREIGNKEY\<close>, which is rethrown.
\<close>

definition insertPostedListing ::
  "Env \<Rightarrow> string \<Rightarrow> string \<Rightarrow> string \<Rightarrow> nat \<Rightarrow> nat \<Rightarrow> World \<Rightarrow> (exn + unit) \<times> World" where
  "insertPostedListing env lid mid cid bnum bpos w =
     (case getDatabase w of
        Inl e \<Rightarrow> (Inl e, w)
      | Inr database \<Rightarrow>
          if lid \<in> p_listing_id ` set (posted_listings database) then (Inr (), w)
          else if lid \<notin> d_id ` set (listings_table database)
          then (Inl (SqliteError ''SQLITE_CONSTRAINT_FOREIGNKEY''), w)
          else
            (let row = \<lparr> p_listing_id = lid, p_message_id = mid, p_channel_id = cid,
                         p_batch_number = bnum, p_batch_position = bpos,
                         p_posted_at = now env \<rparr>
             in (Inr (),
                 w\<lparr> db := Some (database\<lparr> posted_listings :=
                                             posted_listings database @ [row] \<rparr>),
                    effects := effects w @ [PostedInserted row] \<rparr>)))"

text \<open>
  Modelled from the spec: \<open>getPostedListings\<close> and \<open>updateListingStatus\<close> are imported
  by index.ts from database/db.ts, but the file under src/ does not define them. The spec
  gives the store \<open>listAll() -> list<(Listing, DeliveryRecord)>\<close>, every delivery record
  with its listing, and \<open>setStatus(id, status, updatedAt)\<close>.
\<close>

definition getPostedListings :: "Database \<Rightarrow> (Listing \<times> DbPostedListing) list" where
  "getPostedListings database =
     concat (map (\<lambda>postedInfo.
                    (case List.find (\<lambda>row. d_id row = p_listing_id postedInfo)
                                    (listings_table database) of
                       None \<Rightarrow> []
                     | Some row \<Rightarrow> [(dbListingToListing row, postedInfo)]))
                 (posted_listings database))"

definition updateListingStatus :: "string \<Rightarrow> string \<Rightarrow> string \<Rightarrow> World \<Rightarrow> World" where
  "updateListingStatus listingId status updatedAt w =
     w\<lparr> db := map_option
                 (\<lambda>database. database\<lparr> listings_table :=
                    map (\<lambda>row. if d_id row = listingId
                                then row\<lparr> d_status := status, d_updated_at := updatedAt \<rparr>
                                else row)
                        (listings_table database) \<rparr>)
                 (db w),
        effects := effects w @ [StatusUpdated listingId status] \<rparr>"

section \<open>Fetching (api/metaforge.ts)\<close>

text \<open>
  \<open>getSellListings\<close> and \<open>getBuyListings\<close>: one HTTP request, then
  \<open>listings.map(transformApiListing)\<close> inside the same \<open>try\<close>; the \<open>catch\<close> logs and
  rethrows, so an exception of the request or of one transform is the outcome of the call.
\<close>

definition getListingsOfType :: "Env \<Rightarrow> ListingType \<Rightarrow> World \<Rightarrow> (exn + Listing list) \<times> World" where
  "getListingsOfType env ty w =
     (let w' = w\<lparr> effects := effects w @ [HttpGet ty] \<rparr>
      in (case axios_get env ty of
            Inl e \<Rightarrow> (Inl e, w')
          | Inr raw \<Rightarrow> (map_transform raw, w')))"

definition getSellListings :: "Env \<Rightarrow> World \<Rightarrow> (exn + Listing list) \<times> World" where
  "getSellListings env w = getListingsOfType env Sell w"

definition getBuyListings :: "Env \<Rightarrow> World \<Rightarrow> (exn + Listing list) \<times> World" where
  "getBuyListings env w = getListingsOfType env Buy w"

text \<open>
  \<open>getAllListings\<close>: both requests are started before \<open>Promise.all\<close> waits, so both are
  issued whatever their outcome; a rejection of either rejects the whole (when both
  reject, the model reports the sell side's). The sort is the stable sort of
  \<open>Array.prototype.sort\<close> by \<open>created_at\<close>, newest first.
\<close>

definition getAllListings :: "Env \<Rightarrow> World \<Rightarrow> (exn + Listing list) \<times> World" where
  "getAllListings env w =
     (case getSellListings env w of
        (sellResult, w1) \<Rightarrow>
          (case getBuyListings env w1 of
             (buyResult, w2) \<Rightarrow>
               (case sellResult of
                  Inl e \<Rightarrow> (Inl e, w2)
                | Inr sellListings \<Rightarrow>
                    (case buyResult of
                       Inl e \<Rightarrow> (Inl e, w2)
                     | Inr buyListings \<Rightarrow>
                         (Inr (sort_key (\<lambda>l. - getTime env (l_created_at l))
                                        (sellListings @ buyListings)), w2)))))"

section \<open>The earlier fetch script\<close>

text \<open>
  The JavaScript file that precedes the TypeScript client builds the counter-side the
  same way, field by field: the \<open>buying\<close> object of its \<open>getSellListings\<close> and the
  \<open>selling\<close> object of its \<open>getBuyListings\<close> are the same expression. It sets no
  rarity. \<open>data.wanted_item.name\<close> throws when the wanted item is \<open>null\<close>.
\<close>

definition legacy_counter_side :: "ApiListing \<Rightarrow> exn + Side" where
  "legacy_counter_side data =
     (case price data of
        Some pr \<Rightarrow>
          Inr \<lparr> s_id = Some ''assorted-seeds'', s_amount = Some pr,
                s_name = ''Assorted Seeds'', s_icon = seeds_icon, s_rarity = None \<rparr>
      | None \<Rightarrow>
          (case wanted_item data of
             None \<Rightarrow> Inl (TypeError ''Cannot read properties of null'')
           | Some wi \<Rightarrow>
               Inr \<lparr> s_id = wanted_item_id data, s_amount = wanted_quantity data,
                     s_name = i_name wi, s_icon = i_icon wi, s_rarity = None \<rparr>))"

section \<open>Posting and editing (bot/discord.ts)\<close>

definition getDiscordClient :: "World \<Rightarrow> exn + unit" where
  "getDiscordClient w =
     (if discordClient w then Inr ()
      else Inl (Error ''Discord client not initialized. Call initializeDiscordBot() first.''))"

text \<open>
  The loop of \<open>postBatchToDiscord\<close> that records the posted listings: \<open>i\<close> is the loop
  index, and the result is the list \<open>listingIds\<close>.
\<close>

fun recordPosted ::
  "Env \<Rightarrow> string \<Rightarrow> string \<Rightarrow> nat \<Rightarrow> Listing list \<Rightarrow> nat \<Rightarrow> string list \<Rightarrow> World
     \<Rightarrow> (exn + string list) \<times> World" where
  "recordPosted env mid cid bnum [] i listingIds w = (Inr listingIds, w)"
| "recordPosted env mid cid bnum (listing # rest) i listingIds w =
     (case insertPostedListing env (l_id listing) mid cid bnum (i + 1) w of
        (Inl e, w') \<Rightarrow> (Inl e, w')
      | (Inr u, w') \<Rightarrow> recordPosted env mid cid bnum rest (i + 1) (listingIds @ [l_id listing]) w')"

text \<open>
  The body of the \<open>try\<close> of \<open>postBatchToDiscord\<close>; the result is the message id.
  The embed and the buttons are built after the channel is fetched and before the send.
\<close>

definition postBatch_try ::
  "Env \<Rightarrow> ListingBatch \<Rightarrow> string option \<Rightarrow> World \<Rightarrow> (exn + string option) \<times> World" where
  "postBatch_try env batch channelId w =
     (case getDiscordClient w of
        Inl e \<Rightarrow> (Inl e, w)
      | Inr client \<Rightarrow>
          (let targetChannelId = or_default channelId (discord_channelId (config env));
               w1 = w\<lparr> effects := effects w @ [ChannelFetched targetChannelId] \<rparr>
           in (case channels_fetch env targetChannelId of
                 Inl e \<Rightarrow> (Inl e, w1)
               | Inr None \<Rightarrow> (Inr None, w1)
               | Inr (Some textBased) \<Rightarrow>
                   if \<not> textBased then (Inr None, w1)
                   else
                     (case createBatchButtons batch of
                        Inl e \<Rightarrow> (Inl e, w1)
                      | Inr buttons \<Rightarrow>
                     (case channel_send env targetChannelId (batch_number batch) of
                        Inl e \<Rightarrow> (Inl e, w1)
                      | Inr mid \<Rightarrow>
                          (let w2 = w1\<lparr> effects := effects w1 @
                                       [MessageSent targetChannelId (createBatchEmbed batch)
                                                    buttons] \<rparr>
                           in (case recordPosted env mid targetChannelId (batch_number batch)
                                       (listings batch) 0 [] w2 of
                                 (Inl e, w3) \<Rightarrow> (Inl e, w3)
                               | (Inr listingIds, w3) \<Rightarrow>
                                   (case markListingsAsPosted listingIds w3 of
                                      (Inl e, w4) \<Rightarrow> (Inl e, w4)
                                    | (Inr u, w4) \<Rightarrow>
                                        (case emitBatchPosted (listings batch)
                                                (batch_number batch) w4 of
                                           (Inl e, w5) \<Rightarrow> (Inl e, w5)
                                         | (Inr u, w5) \<Rightarrow>
                                             (case forEach emitListingPosted
                                                     (listings batch) w5 of
                                                (Inl e, w6) \<Rightarrow> (Inl e, w6)
                                              | (Inr u, w6) \<Rightarrow> (Inr (Some mid), w6)))))))))))"

text \<open>
  \<open>postBatchToDiscord\<close>: the \<open>catch\<close> logs, calls \<open>botEvents.emitError\<close> and returns
  \<open>null\<close>; an exception of \<open>emitError\<close> leaves the function.
\<close>

definition postBatchToDiscord ::
  "Env \<Rightarrow> ListingBatch \<Rightarrow> string option \<Rightarrow> World \<Rightarrow> (exn + string option) \<times> World" where
  "postBatchToDiscord env batch channelId w =
     (case postBatch_try env batch channelId w of
        (Inr message, w') \<Rightarrow> (Inr message, w')
      | (Inl error, w') \<Rightarrow>
          (case emitError error w' of
             (Inl e, w'') \<Rightarrow> (Inl e, w'')
           | (Inr u, w'') \<Rightarrow> (Inr None, w'')))"

fun postBatches ::
  "Env \<Rightarrow> string option \<Rightarrow> ListingBatch list \<Rightarrow> nat \<Rightarrow> World \<Rightarrow> (exn + nat) \<times> World" where
  "postBatches env channelId [] successCount w = (Inr successCount, w)"
| "postBatches env channelId (batch # rest) successCount w =
     (case postBatchToDiscord env batch channelId w of
        (Inl e, w') \<Rightarrow> (Inl e, w')
      | (Inr message, w') \<Rightarrow>
          postBatches env channelId rest
            (if message \<noteq> None then successCount + 1 else successCount) w')"

definition postListingsToDiscord ::
  "Env \<Rightarrow> Listing list \<Rightarrow> string option \<Rightarrow> World \<Rightarrow> (exn + nat) \<times> World" where
  "postListingsToDiscord env ls channelId w =
     (if ls = [] then (Inr 0, w)
      else postBatches env channelId (createListingBatches (clock env) ls) 0 w)"

text \<open>
  \<open>updateMessageWithStatus\<close>: everything is inside one \<open>try\<close> whose \<open>catch\<close> returns
  \<open>false\<close>. The embed is rebuilt from the rows of exactly the ids in \<open>listingIds\<close>.
\<close>

definition updateMessageWithStatus ::
  "Env \<Rightarrow> string \<Rightarrow> string \<Rightarrow> string list \<Rightarrow> nat \<Rightarrow> World \<Rightarrow> bool \<times> World" where
  "updateMessageWithStatus env messageId channelId listingIds batchNumber w =
     (case getDiscordClient w of
        Inl e \<Rightarrow> (False, w)
      | Inr client \<Rightarrow>
          (let w1 = w\<lparr> effects := effects w @ [ChannelFetched channelId] \<rparr>
           in (case channels_fetch env channelId of
                 Inl e \<Rightarrow> (False, w1)
               | Inr None \<Rightarrow> (False, w1)
               | Inr (Some textBased) \<Rightarrow>
                   if \<not> textBased then (False, w1)
                   else
                     (let w2 = w1\<lparr> effects := effects w1 @
                                  [MessageFetched channelId messageId] \<rparr>
                      in (case messages_fetch env channelId messageId of
                            Inl e \<Rightarrow> (False, w2)
                          | Inr found \<Rightarrow>
                              if \<not> found then (False, w2)
                              else if listingIds = [] then (False, w2)
                              else
                                (case getDatabase w2 of
                                   Inl e \<Rightarrow> (False, w2)
                                 | Inr database \<Rightarrow>
                                     (let updatedListings =
                                            List.map_filter (getListingById database) listingIds
                                      in if updatedListings = [] then (False, w2)
                                         else
                                           (let updatedEmbed =
                                                  recreateBatchEmbed updatedListings batchNumber
                                                    (clock env batchNumber);
                                                w3 = w2\<lparr> effects := effects w2 @
                                                       [MessageEdited messageId updatedEmbed] \<rparr>
                                            in (case message_edit env messageId of
                                                  Inl e \<Rightarrow> (False, w3)
                                                | Inr u \<Rightarrow> (True, w3))))))))))"

section \<open>The polling cycle (index.ts)\<close>

text \<open>
  \<open>messageGroups\<close> is a \<open>Map\<close> from message id to the group data: an association list
  in insertion order, as the \<open>for ... of\<close> over the map visits it.
\<close>

record GroupData =
  g_channelId :: string
  g_batchNumber :: nat
  g_listings :: "(string \<times> nat) list"

definition group_add ::
  "DbPostedListing \<Rightarrow> string \<Rightarrow> (string \<times> GroupData) list \<Rightarrow> (string \<times> GroupData) list" where
  "group_add postedInfo lid messageGroups =
     (let groups' =
        (if p_message_id postedInfo \<in> fst ` set messageGroups then messageGroups
         else messageGroups @
                [(p_message_id postedInfo,
                  \<lparr> g_channelId = p_channel_id postedInfo,
                    g_batchNumber = p_batch_number postedInfo,
                    g_listings = [] \<rparr>)])
      in map (\<lambda>(k, g). if k = p_message_id postedInfo
                         then (k, g\<lparr> g_listings := g_listings g @
                                       [(lid, p_batch_position postedInfo)] \<rparr>)
                         else (k, g))
             groups')"

text \<open>
  The first loop of \<open>checkStatusChanges\<close>: a posted listing enters a group only when its
  fetched status differs from the stored one, after the new status is written.
\<close>

fun scanPosted ::
  "(string \<Rightarrow> Listing option) \<Rightarrow> (Listing \<times> DbPostedListing) list
     \<Rightarrow> (string \<times> GroupData) list \<Rightarrow> nat \<Rightarrow> World
     \<Rightarrow> (string \<times> GroupData) list \<times> nat \<times> World" where
  "scanPosted fetchedListings [] messageGroups statusChangedCount w =
     (messageGroups, statusChangedCount, w)"
| "scanPosted fetchedListings ((listing, postedInfo) # rest) messageGroups statusChangedCount w =
     (case fetchedListings (l_id listing) of
        None \<Rightarrow> scanPosted fetchedListings rest messageGroups statusChangedCount w
      | Some apiListing \<Rightarrow>
          if l_status apiListing \<noteq> l_status listing then
            scanPosted fetchedListings rest
              (group_add postedInfo (l_id listing) messageGroups)
              (statusChangedCount + 1)
              (updateListingStatus (l_id listing) (l_status apiListing)
                 (l_updated_at apiListing) w)
          else scanPosted fetchedListings rest messageGroups statusChangedCount w)"

text \<open>The second loop: one \<open>updateMessageWithStatus\<close> per group, its listings by position.\<close>

fun updateGroups :: "Env \<Rightarrow> (string \<times> GroupData) list \<Rightarrow> World \<Rightarrow> World" where
  "updateGroups env [] w = w"
| "updateGroups env ((messageId, groupData) # rest) w =
     (let listingIds = map fst (sort_key snd (g_listings groupData))
      in updateGroups env rest
           (snd (updateMessageWithStatus env messageId (g_channelId groupData)
                   listingIds (g_batchNumber groupData) w)))"

text \<open>\<open>checkStatusChanges\<close>: its \<open>catch\<close> only logs, so the call always returns.\<close>

definition checkStatusChanges :: "Env \<Rightarrow> (string \<Rightarrow> Listing option) \<Rightarrow> World \<Rightarrow> World" where
  "checkStatusChanges env fetchedListings w =
     (case getDatabase w of
        Inl e \<Rightarrow> w
      | Inr database \<Rightarrow>
          (let postedListings = getPostedListings database
           in if postedListings = [] then w
              else
                (case scanPosted fetchedListings postedListings [] 0 w of
                   (messageGroups, statusChangedCount, w') \<Rightarrow>
                     if statusChangedCount = 0 then w'
                     else updateGroups env messageGroups w')))"

text \<open>
  The body of the \<open>try\<close> of \<open>pollListings\<close>. \<open>new Map(fetchedListings.map(...))\<close> keeps
  the last listing of an id; \<open>listingExists\<close> is asked once per fetched listing.
\<close>

definition pollListings_try :: "Env \<Rightarrow> World \<Rightarrow> (exn + unit) \<times> World" where
  "pollListings_try env w =
     (case getAllListings env w of
        (Inl e, w1) \<Rightarrow> (Inl e, w1)
      | (Inr fetchedListings, w1) \<Rightarrow>
          (let w2 = w1\<lparr> stats := (stats w1)\<lparr> totalListingsFetched :=
                          totalListingsFetched (stats w1) + length fetchedListings \<rparr> \<rparr>;
               fetchedListingsMap = map_of (rev (map (\<lambda>listing. (l_id listing, listing))
                                                     fetchedListings));
               w3 = checkStatusChanges env fetchedListingsMap w2
           in if fetchedListings \<noteq> [] \<and> db w3 = None then
                (Inl (Error ''Database not initialized. Call initializeDatabase() first.''), w3)
              else
                (let existingIds =
                       (case db w3 of
                          None \<Rightarrow> {}
                        | Some database \<Rightarrow>
                            set (filter (listingExists database) (map l_id fetchedListings)));
                     newListings = getNewListings fetchedListings existingIds
                 in if newListings = [] then
                      (Inr (), w3\<lparr> stats := (stats w3)\<lparr> totalPollsCompleted :=
                                      totalPollsCompleted (stats w3) + 1 \<rparr> \<rparr>)
                    else
                      (let w4 = w3\<lparr> stats := (stats w3)\<lparr> totalNewListingsDetected :=
                                      totalNewListingsDetected (stats w3) + length newListings \<rparr> \<rparr>
                       in (case insertListings env newListings w4 of
                             (Inl e, w5) \<Rightarrow> (Inl e, w5)
                           | (Inr inserted, w5) \<Rightarrow>
                               (case emitNewListingsBatch newListings w5 of
                                  (Inl e, w6) \<Rightarrow> (Inl e, w6)
                                | (Inr u, w6) \<Rightarrow>
                                    (case forEach emitNewListing newListings w6 of
                                       (Inl e, w7) \<Rightarrow> (Inl e, w7)
                                     | (Inr u, w7) \<Rightarrow>
                                         (case postListingsToDiscord env newListings None w7 of
                                            (Inl e, w8) \<Rightarrow> (Inl e, w8)
                                          | (Inr batchesPosted, w8) \<Rightarrow>
                                              (Inr (),
                                               w8\<lparr> stats := (stats w8)
                                                    \<lparr> totalBatchesPosted :=
                                                        totalBatchesPosted (stats w8) + batchesPosted,
                                                      totalPollsCompleted :=
                                                        totalPollsCompleted (stats w8) + 1 \<rparr> \<rparr>)))))))))"

text \<open>
  \<open>pollListings\<close>: the guard, the \<open>try\<close>, the \<open>catch\<close> that logs and calls
  \<open>botEvents.emitError\<close>, and the \<open>finally\<close> that resets \<open>isProcessing\<close>. \<open>Inl\<close> is a
  rejected promise: an exception that left the function.
\<close>

definition pollListings :: "Env \<Rightarrow> World \<Rightarrow> (exn + unit) \<times> World" where
  "pollListings env w =
     (if isProcessing w then (Inr (), w)
      else
        (case pollListings_try env (w\<lparr> isProcessing := True \<rparr>) of
           (Inr u, w') \<Rightarrow> (Inr (), w'\<lparr> isProcessing := False \<rparr>)
         | (Inl error, w') \<Rightarrow>
             (case emitError error w' of
                (r, w'') \<Rightarrow> (r, w''\<lparr> isProcessing := False \<rparr>))))"

section \<open>Notions the properties are stated with\<close>

text \<open>The sizes of the chunks of \<open>n\<close> items cut five at a time.\<close>

definition chunk_sizes :: "nat \<Rightarrow> nat list" where
  "chunk_sizes n = replicate (n div 5) 5 @ (if n mod 5 = 0 then [] else [n mod 5])"

text \<open>
  A write to the delivery tracker or to the posted flag; a message that was sent; the
  effects a call added to a state.
\<close>

fun is_tracker_write :: "Effect \<Rightarrow> bool" where
  "is_tracker_write (PostedInserted row) = True"
| "is_tracker_write (MarkedPosted ids) = True"
| "is_tracker_write e = False"

fun is_send :: "Effect \<Rightarrow> bool" where
  "is_send (MessageSent c e b) = True"
| "is_send e = False"

definition new_effects :: "World \<Rightarrow> World \<Rightarrow> Effect list" where
  "new_effects w w' = drop (length (effects w)) (effects w')"

text \<open>
  The send of \<open>postBatchToDiscord\<close> succeeds: the client exists, the channel is found
  and text-based, the buttons are built, and \<open>channel.send\<close> resolves.
\<close>

definition send_succeeds :: "Env \<Rightarrow> ListingBatch \<Rightarrow> string option \<Rightarrow> World \<Rightarrow> bool" where
  "send_succeeds env batch channelId w =
     (discordClient w
      \<and> channels_fetch env (or_default channelId (discord_channelId (config env)))
            = Inr (Some True)
      \<and> (case createBatchButtons batch of Inl e \<Rightarrow> False | Inr buttons \<Rightarrow> True)
      \<and> (case channel_send env (or_default channelId (discord_channelId (config env)))
                 (batch_number batch) of
            Inl e \<Rightarrow> False
          | Inr mid \<Rightarrow> True))"

text \<open>
  The edit requests of a trace: the message id with the entries of the new embed, each
  as position, listing id and status.
\<close>

fun edit_requests :: "Effect list \<Rightarrow> (string \<times> (nat \<times> string \<times> string) list) list" where
  "edit_requests [] = []"
| "edit_requests (MessageEdited mid newEmbed # es) =
     (mid, map (\<lambda>(pos, l). (pos, l_id l, l_status l)) (e_entries newEmbed)) # edit_requests es"
| "edit_requests (e # es) = edit_requests es"

text \<open>The listings the tracker holds for a message, each as position, id and status.\<close>

definition tracked_in_message :: "Database \<Rightarrow> string \<Rightarrow> (nat \<times> string \<times> string) list" where
  "tracked_in_message database mid =
     map (\<lambda>(l, postedInfo). (p_batch_position postedInfo, l_id l, l_status l))
         (filter (\<lambda>(l, postedInfo). p_message_id postedInfo = mid)
                 (getPostedListings database))"

section \<open>Example values\<close>

definition exProfile :: UserProfile where
  "exProfile = \<lparr> full_name = ''Ann'', username = ''ann#1'', avatar_url = None,
                 embark_id = ''ann#0001'' \<rparr>"

definition exItem :: "string \<Rightarrow> Item" where
  "exItem n = \<lparr> i_id = n, i_name = n, i_icon = ''icon'', i_rarity = None,
                i_item_type = None \<rparr>"

text \<open>A raw record: \<open>exApi id type price wanted\<close>; the barter fields follow \<open>wanted\<close>.\<close>

definition exApi :: "string \<Rightarrow> ListingType \<Rightarrow> int option \<Rightarrow> string option \<Rightarrow> ApiListing" where
  "exApi i ty pr wanted =
     \<lparr> a_id = i, listing_type = ty, a_user_id = ''u1'', a_status = ''active'',
       a_description = None, a_created_at = ''2024-01-01T00:00:00.000Z'',
       a_updated_at = ''2024-01-01T00:00:00.000Z'', item_id = ''iron-scrap'',
       item = exItem ''iron-scrap'', quantity = 3, price = pr,
       wanted_item_id = wanted, wanted_item = map_option exItem wanted,
       wanted_quantity = map_option (\<lambda>n. 2) wanted, a_user_profile = exProfile \<rparr>"

definition exSide :: "string \<Rightarrow> int \<Rightarrow> Side" where
  "exSide n k = \<lparr> s_id = Some n, s_amount = Some k, s_name = n, s_icon = ''icon'',
                  s_rarity = None \<rparr>"

definition exListing :: "string \<Rightarrow> string \<Rightarrow> Listing" where
  "exListing i st =
     \<lparr> l_id = i, l_type = Sell, l_user_id = ''u1'', l_status = st, l_description = None,
       l_created_at = ''2024-01-01T00:00:00.000Z'',
       l_updated_at = ''2024-01-01T00:00:00.000Z'',
       selling = exSide ''iron-scrap'' 3, buying = exSide ''assorted-seeds'' 40,
       l_user_profile = exProfile \<rparr>"

definition exRow :: "string \<Rightarrow> string \<Rightarrow> DbListing" where
  "exRow i st =
     \<lparr> d_id = i, d_type = Sell, d_user_id = ''u1'', d_status = st, d_description = None,
       selling_id = Some ''iron-scrap'', selling_name = ''iron-scrap'',
       selling_icon = ''icon'', selling_amount = Some 3,
       buying_id = Some ''assorted-seeds'', buying_name = ''assorted-seeds'',
       buying_icon = ''icon'', buying_amount = Some 40,
       user_full_name = ''Ann'', user_username = ''ann#1'', user_avatar_url = None,
       user_embark_id = ''ann#0001'',
       d_created_at = ''2024-01-01T00:00:00.000Z'',
       d_updated_at = ''2024-01-01T00:00:00.000Z'',
       fetched_at = ''2024-01-01T00:00:05.000Z'', posted_to_discord = 1 \<rparr>"

definition exPosted :: "string \<Rightarrow> string \<Rightarrow> nat \<Rightarrow> DbPostedListing" where
  "exPosted i mid pos =
     \<lparr> p_listing_id = i, p_message_id = mid, p_channel_id = ''ch'', p_batch_number = 1,
       p_batch_position = pos, p_posted_at = ''2024-01-01T00:00:06.000Z'' \<rparr>"

text \<open>Two listings, both delivered in message \<open>m1\<close> at positions 1 and 2.\<close>

definition exDb :: Database where
  "exDb = \<lparr> listings_table = [exRow ''A'' ''active'', exRow ''B'' ''active''],
            posted_listings = [exPosted ''A'' ''m1'' 1, exPosted ''B'' ''m1'' 2] \<rparr>"

text \<open>
  The listeners after \<open>main()\<close>: \<open>initializeCustomPurchaseLogic\<close> registers one
  listener, which only logs, for each of three events; nothing in the repository
  registers a listener for \<open>BotEvent.ERROR\<close>.
\<close>

definition shippedListeners :: "BotEvent \<Rightarrow> exn option list" where
  "shippedListeners ev =
     (if ev = NEW_LISTING \<or> ev = NEW_LISTINGS_BATCH \<or> ev = PURCHASE_BUTTON_CLICKED
      then [None] else [])"

definition exWorld :: World where
  "exWorld = \<lparr> isProcessing = False,
               stats = \<lparr> totalPollsCompleted = 0, totalListingsFetched = 0,
                         totalNewListingsDetected = 0, totalBatchesPosted = 0 \<rparr>,
               db = Some exDb, discordClient = True, listeners = shippedListeners,
               effects = [] \<rparr>"

definition exConfig :: Config where
  "exConfig = \<lparr> discord_token = ''token'', discord_channelId = ''ch'',
                polling_interval = Some 5000, database_path = ''./data/listings.db'',
                logging_level = ''info'', autoPurchase_enabled = True \<rparr>"

text \<open>An environment in which every request succeeds and the API has no listing.\<close>

definition exEnv :: Env where
  "exEnv = \<lparr> config = exConfig,
             axios_get = (\<lambda>ty. Inr []),
             getTime = (\<lambda>s. 0),
             now = ''2024-01-01T00:01:00.000Z'',
             clock = (\<lambda>k. 0),
             channels_fetch = (\<lambda>c. Inr (Some True)),
             channel_send = (\<lambda>c n. Inr ''m2''),
             messages_fetch = (\<lambda>c m. Inr True),
             message_edit = (\<lambda>m. Inr ()) \<rparr>"

text \<open>The fetch of the next cycle: listing \<open>A\<close> is now in progress, \<open>B\<close> is unchanged.\<close>

definition exFetched :: "string \<Rightarrow> Listing option" where
  "exFetched = map_of (rev (map (\<lambda>listing. (l_id listing, listing))
                 [exListing ''A'' ''in-progress'', exListing ''B'' ''active'']))"

definition exEnvironment :: "string \<Rightarrow> string option" where
  "exEnvironment = (\<lambda>k. None)(''DISCORD_BOT_TOKEN'' \<mapsto> ''token'',
                                ''DISCORD_CHANNEL_ID'' \<mapsto> ''ch'',
                                ''POLL_INTERVAL'' \<mapsto> ''500'')"

text \<open>Seven new listings, and a batch of two.\<close>

definition exSeven :: "Listing list" where
  "exSeven = map (\<lambda>i. exListing i ''active'') [''a'', ''b'', ''c'', ''d'', ''e'', ''f'', ''g'']"

definition exBatch :: ListingBatch where
  "exBatch = \<lparr> batch_number = 1,
               listings = [exListing ''A'' ''active'', exListing ''B'' ''active''],
               created_at = 0 \<rparr>"

text \<open>A batch of six listings, and a batch of one listing whose id has 95 characters.\<close>

definition exSixBatch :: ListingBatch where
  "exSixBatch = \<lparr> batch_number = 1,
                  listings = map (\<lambda>i. exListing i ''active'')
                                 [''a'', ''b'', ''c'', ''d'', ''e'', ''f''],
                  created_at = 0 \<rparr>"

definition exLongBatch :: ListingBatch where
  "exLongBatch = \<lparr> batch_number = 1,
                   listings = [exListing (replicate 95 CHR ''x'') ''active''],
                   created_at = 0 \<rparr>"

text \<open>
  The sell response holds a priced record and a record with no price and no barter
  field; the buy response holds one record of the second kind.
\<close>

definition exSellResponse :: "ApiListing list" where
  "exSellResponse = [exApi ''C'' Sell (Some 5) None, exApi ''D'' Sell None None]"

definition exBuyResponse :: "ApiListing list" where
  "exBuyResponse = [exApi ''E'' Buy None None]"

definition exEnvMalformed :: Env where
  "exEnvMalformed =
     exEnv\<lparr> axios_get := (\<lambda>ty. if ty = Sell then Inr exSellResponse else Inr exBuyResponse) \<rparr>"

text \<open>The API cannot be reached; the channel does not exist.\<close>

definition exEnvDown :: Env where
  "exEnvDown = exEnv\<lparr> axios_get := (\<lambda>ty. Inl (Rejected ''ECONNREFUSED'')) \<rparr>"

definition exEnvNoChannel :: Env where
  "exEnvNoChannel = exEnv\<lparr> channels_fetch := (\<lambda>c. Inr None) \<rparr>"

definition exEnvironmentText :: "string \<Rightarrow> string option" where
  "exEnvironmentText = exEnvironment(''POLL_INTERVAL'' \<mapsto> ''fast'')"

section \<open>Properties\<close>

declare showNat.simps [simp del]
declare createListingBatches_loop.simps [simp del]

subsection \<open>New listings\<close>

lemma getNewListings_subseq: "subseq (getNewListings F K) F"
  by (simp add: getNewListings_def)

lemma getNewListings_set: "set (getNewListings F K) = {l \<in> set F. l_id l \<notin> K}"
  by (auto simp: getNewListings_def)

lemma getNewListings_count:
  "count_list (getNewListings F K) l = (if l_id l \<in> K then 0 else count_list F l)"
  unfolding getNewListings_def by (induction F) auto

lemma getNewListings_rerun: "getNewListings F (K \<union> l_id ` set (getNewListings F K)) = []"
  by (auto simp: getNewListings_def filter_empty_conv)

text \<open>
  Claim C1. For every list of fetched listings \<open>F\<close> and every set of known ids \<open>K\<close>,
  \<open>getNewListings F K\<close> holds exactly the elements of \<open>F\<close> whose id is not in \<open>K\<close>
  (the same elements, each as often as in \<open>F\<close>), in the order of \<open>F\<close>; run again with
  \<open>K\<close> extended by the ids of the result, it returns the empty list.
\<close>

theorem getNewListings_exact_ordered_idempotent:
  "subseq (getNewListings F K) F
   \<and> set (getNewListings F K) = {l \<in> set F. l_id l \<notin> K}
   \<and> (\<forall>l. count_list (getNewListings F K) l = (if l_id l \<in> K then 0 else count_list F l))
   \<and> getNewListings F (K \<union> l_id ` set (getNewListings F K)) = []"
  using getNewListings_subseq getNewListings_set getNewListings_count getNewListings_rerun
  by blast

theorem getNewListings_witness:
  "getNewListings [exListing ''A'' ''active'', exListing ''C'' ''active''] {''A''}
     = [exListing ''C'' ''active'']
   \<and> getNewListings [exListing ''A'' ''active'', exListing ''C'' ''active'']
        ({''A''} \<union> l_id ` set (getNewListings
            [exListing ''A'' ''active'', exListing ''C'' ''active''] {''A''})) = []"
proof -
  have "getNewListings [exListing ''A'' ''active'', exListing ''C'' ''active''] {''A''}
     = [exListing ''C'' ''active'']"
    by code_simp
  then show ?thesis
    using getNewListings_exact_ordered_idempotent
      [of "[exListing ''A'' ''active'', exListing ''C'' ''active'']" "{''A''}"]
    by blast
qed

subsection \<open>Batches\<close>

lemma loop_concat:
  "concat (map listings (createListingBatches_loop clk ls i bn acc))
     = concat (map listings acc) @ drop i ls"
proof (induction clk ls i bn acc rule: createListingBatches_loop.induct)
  case (1 clk ls i bn acc)
  show ?case
  proof (cases "i < length ls")
    case True
    have "take 5 (drop i ls) @ drop (i + 5) ls = drop i ls"
      by (metis add.commute append_take_drop_id drop_drop)
    with True 1 show ?thesis
      by (subst createListingBatches_loop.simps) (simp add: LISTINGS_PER_BATCH_def slice_def)
  next
    case False
    then show ?thesis by (subst createListingBatches_loop.simps) simp
  qed
qed

lemma div5_step: "0 < (m::nat) \<Longrightarrow> (m + 4) div 5 = Suc ((m - 5 + 4) div 5)"
proof (cases "m < 5")
  case True
  assume "0 < m"
  with True have "(m + 4) div 5 = 1" by (simp add: div_eq_dividend_iff Suc_le_eq div_if)
  with True show ?thesis by simp
next
  case False
  then have "m + 4 = (m - 5 + 4) + 5" by simp
  then have "(m + 4) div 5 = ((m - 5 + 4) + 5) div 5" by simp
  also have "\<dots> = Suc ((m - 5 + 4) div 5)" by simp
  finally show ?thesis .
qed

lemma loop_numbers:
  "map batch_number (createListingBatches_loop clk ls i bn acc)
     = map batch_number acc @ [bn ..< bn + (length ls - i + 4) div 5]"
proof (induction clk ls i bn acc rule: createListingBatches_loop.induct)
  case (1 clk ls i bn acc)
  show ?case
  proof (cases "i < length ls")
    case True
    then have "0 < length ls - i" by simp
    then have e: "(length ls - i + 4) div 5 = Suc ((length ls - (i + 5) + 4) div 5)"
      using div5_step [of "length ls - i"] by simp
    have "[bn ..< bn + Suc k] = bn # [bn + 1 ..< bn + 1 + k]" for k
      by (simp add: upt_rec)
    with True 1 e show ?thesis
      by (subst createListingBatches_loop.simps) (simp add: LISTINGS_PER_BATCH_def)
  next
    case False
    then show ?thesis by (subst createListingBatches_loop.simps) simp
  qed
qed

lemma chunk_sizes_step: "\<not> n < 5 \<Longrightarrow> chunk_sizes n = 5 # chunk_sizes (n - 5)"
proof -
  assume a: "\<not> n < 5"
  then have d: "n div 5 = Suc ((n - 5) div 5)" by presburger
  from a have m: "n mod 5 = (n - 5) mod 5" by presburger
  show ?thesis unfolding chunk_sizes_def d m by simp
qed

lemma loop_sizes:
  "map (\<lambda>b. length (listings b)) (createListingBatches_loop clk ls i bn acc)
     = map (\<lambda>b. length (listings b)) acc @ chunk_sizes (length ls - i)"
proof (induction clk ls i bn acc rule: createListingBatches_loop.induct)
  case (1 clk ls i bn acc)
  show ?case
  proof (cases "i < length ls")
    case True
    have e: "min (length ls - i) 5 # chunk_sizes (length ls - (i + 5)) = chunk_sizes (length ls - i)"
    proof (cases "length ls - i < 5")
      case True
      with \<open>i < length ls\<close> show ?thesis by (simp add: chunk_sizes_def)
    next
      case False
      then have "chunk_sizes (length ls - i) = 5 # chunk_sizes (length ls - i - 5)"
        by (rule chunk_sizes_step)
      with False show ?thesis by simp
    qed
    with True 1 show ?thesis
      by (subst createListingBatches_loop.simps) (simp add: LISTINGS_PER_BATCH_def slice_def)
  next
    case False
    then show ?thesis by (subst createListingBatches_loop.simps) (simp add: chunk_sizes_def)
  qed
qed


lemma chunk_sizes_length: "length (chunk_sizes n) = (n + 4) div 5"
proof -
  have a: "n mod 5 = 0 \<Longrightarrow> n div 5 = (n + 4) div 5" by presburger
  have b: "n mod 5 \<noteq> 0 \<Longrightarrow> Suc (n div 5) = (n + 4) div 5" by presburger
  show ?thesis using a b by (simp add: chunk_sizes_def)
qed

lemma chunk_count: "(n + 4) div 5 = (if n mod 5 = 0 then n div 5 else Suc (n div 5))"
  by presburger

lemma chunk_sizes_nth:
  assumes "k < (n + 4) div 5"
  shows "chunk_sizes n ! k = (if Suc k < (n + 4) div 5 then 5 else n - 5 * k)"
proof -
  define q where "q = n div 5"
  define r where "r = n mod 5"
  have n: "n = 5 * q + r" and r: "r < 5" by (simp_all add: q_def r_def)
  have cnt: "(n + 4) div 5 = (if r = 0 then q else Suc q)"
    unfolding q_def r_def by (rule chunk_count)
  have cs: "chunk_sizes n = replicate q 5 @ (if r = 0 then [] else [r])"
    by (simp add: chunk_sizes_def q_def r_def)
  show ?thesis
  proof (cases "k < q")
    case True
    then have "chunk_sizes n ! k = 5" by (simp add: cs nth_append)
    moreover from True n r have "\<not> Suc k < (if r = 0 then q else Suc q) \<Longrightarrow> n - 5 * k = 5"
      by (cases "r = 0") simp_all
    ultimately show ?thesis unfolding cnt by (cases "Suc k < (if r = 0 then q else Suc q)") simp_all
  next
    case False
    with assms cnt have k: "k = q" and r0: "r \<noteq> 0" by (cases "r = 0"; simp)+
    then have "chunk_sizes n ! k = r" by (simp add: cs nth_append)
    moreover from k n have "n - 5 * k = r" by simp
    ultimately show ?thesis unfolding cnt using k r0 by simp
  qed
qed

lemma chunk_sizes_bounds: "s \<in> set (chunk_sizes n) \<Longrightarrow> 1 \<le> s \<and> s \<le> 5"
  by (auto simp: chunk_sizes_def split: if_splits)

text \<open>
  Claim C2. \<open>createListingBatches\<close> cuts a list of \<open>N\<close> listings into \<open>ceil(N/5)\<close>
  batches; every batch but the last has exactly 5 listings and the last has the rest,
  every batch has between 1 and 5; the listings of the batches, concatenated, are the
  input list; and the batch numbers are 1, 2, ... in order.
\<close>

theorem createListingBatches_partition:
  "length (createListingBatches clk ls) = (length ls + 4) div 5
   \<and> (\<forall>k < length (createListingBatches clk ls).
         length (listings (createListingBatches clk ls ! k))
           = (if Suc k < length (createListingBatches clk ls) then 5 else length ls - 5 * k))
   \<and> (\<forall>b \<in> set (createListingBatches clk ls).
         1 \<le> length (listings b) \<and> length (listings b) \<le> 5)
   \<and> concat (map listings (createListingBatches clk ls)) = ls
   \<and> map batch_number (createListingBatches clk ls)
         = [1 ..< Suc (length (createListingBatches clk ls))]"
proof -
  let ?bs = "createListingBatches clk ls"
  have sizes: "map (\<lambda>b. length (listings b)) ?bs = chunk_sizes (length ls)"
    using loop_sizes [of clk ls 0 1 "[]"] by (simp add: createListingBatches_def)
  have len: "length ?bs = (length ls + 4) div 5"
    using arg_cong [OF sizes, of length] by (simp add: chunk_sizes_length)
  have nth: "length (listings (?bs ! k))
           = (if Suc k < length ?bs then 5 else length ls - 5 * k)" if "k < length ?bs" for k
  proof -
    have "length (listings (?bs ! k)) = map (\<lambda>b. length (listings b)) ?bs ! k"
      using that by simp
    also have "\<dots> = chunk_sizes (length ls) ! k" by (simp only: sizes)
    also have "\<dots> = (if Suc k < length ?bs then 5 else length ls - 5 * k)"
      using that chunk_sizes_nth [of k "length ls"] by (simp add: len)
    finally show ?thesis .
  qed
  have bounds: "1 \<le> length (listings b) \<and> length (listings b) \<le> 5" if "b \<in> set ?bs" for b
  proof -
    from that have "length (listings b) \<in> set (map (\<lambda>b. length (listings b)) ?bs)" by auto
    then show ?thesis by (simp only: sizes chunk_sizes_bounds)
  qed
  have cat: "concat (map listings ?bs) = ls"
    using loop_concat [of clk ls 0 1 "[]"] by (simp add: createListingBatches_def)
  have "map batch_number ?bs = [1 ..< 1 + (length ls - 0 + 4) div 5]"
    unfolding createListingBatches_def using loop_numbers [of clk ls 0 1 "[]"]
    by (simp del: upt_Suc)
  then have nums: "map batch_number ?bs = [1 ..< Suc (length ?bs)]"
    by (simp add: len del: upt_Suc)
  show ?thesis
    apply (intro conjI allI ballI impI)
    apply (rule len)
    apply (erule nth)
    apply (simp only: bounds)
    apply (simp only: bounds)
    apply (rule cat)
    apply (rule nums)
    done
qed

theorem createListingBatches_witness:
  "length (createListingBatches (\<lambda>k. 0) exSeven) = 2
   \<and> length (listings (createListingBatches (\<lambda>k. 0) exSeven ! 0)) = 5
   \<and> length (listings (createListingBatches (\<lambda>k. 0) exSeven ! 1)) = 2
   \<and> exListing ''g'' ''active'' \<in> set (listings (createListingBatches (\<lambda>k. 0) exSeven ! 1))
   \<and> concat (map listings (createListingBatches (\<lambda>k. 0) exSeven)) = exSeven
   \<and> map batch_number (createListingBatches (\<lambda>k. 0) exSeven) = [1, 2]"
proof -
  let ?bs = "createListingBatches (\<lambda>k. 0) exSeven"
  note t = createListingBatches_partition [of "\<lambda>k. 0" exSeven]
  have n: "length exSeven = 7" by (simp add: exSeven_def)
  have len: "length ?bs = 2" using t [THEN conjunct1] by (simp add: n)
  have nth: "length (listings (?bs ! k))
               = (if Suc k < length ?bs then 5 else length exSeven - 5 * k)"
    if "k < length ?bs" for k
    using t [THEN conjunct2, THEN conjunct1] that by blast
  have s0: "length (listings (?bs ! 0)) = 5" using nth [of 0] by (simp add: len)
  have s1: "length (listings (?bs ! 1)) = 2" using nth [of 1] by (simp add: len n)
  have cat: "concat (map listings ?bs) = exSeven"
    using t [THEN conjunct2, THEN conjunct2, THEN conjunct2, THEN conjunct1] .
  have "map batch_number ?bs = [1 ..< Suc (length ?bs)]"
    using t [THEN conjunct2, THEN conjunct2, THEN conjunct2, THEN conjunct2] .
  then have nums: "map batch_number ?bs = [1, 2]" by (simp add: len upt_rec)
  have g: "exListing ''g'' ''active'' \<in> set (listings (?bs ! 1))" by code_simp
  from len s0 s1 g cat nums show ?thesis by blast
qed

subsection \<open>Normalization\<close>

text \<open>
  Claim C4. A record with a price is normalized to a listing of the record's type whose
  counter-side, \<open>buying\<close> for a sell record and \<open>selling\<close> for a buy record, is the
  currency item: id \<open>assorted-seeds\<close>, name \<open>Assorted Seeds\<close>, the fixed icon URL, and
  the price as amount. A record without a price whose wanted item is present is
  normalized to a listing of the record's type whose counter-side has the id, amount,
  name and icon of the wanted-item fields. In both cases the other side is the traded
  item. The earlier script computes the same counter-side.
\<close>

theorem transformApiListing_settlement:
  "(price r = Some pr \<longrightarrow>
      (\<exists>l. transformApiListing r = Inr l \<and> l_type l = listing_type r \<and>
           (if listing_type r = Sell then buying l else selling l) =
             \<lparr> s_id = Some ''assorted-seeds'', s_amount = Some pr,
               s_name = ''Assorted Seeds'',
               s_icon = ''https://cdn.metaforge.app/arc-raiders/icons/assorted-seeds.webp'',
               s_rarity = None \<rparr> \<and>
           (if listing_type r = Sell then selling l else buying l) =
             \<lparr> s_id = Some (item_id r), s_amount = Some (quantity r),
               s_name = i_name (item r), s_icon = i_icon (item r),
               s_rarity = i_rarity (item r) \<rparr>)
      \<and> legacy_counter_side r =
            Inr \<lparr> s_id = Some ''assorted-seeds'', s_amount = Some pr,
                  s_name = ''Assorted Seeds'',
                  s_icon = ''https://cdn.metaforge.app/arc-raiders/icons/assorted-seeds.webp'',
                  s_rarity = None \<rparr>)
   \<and> (price r = None \<and> wanted_item r = Some wi \<longrightarrow>
      (\<exists>l. transformApiListing r = Inr l \<and> l_type l = listing_type r \<and>
           (if listing_type r = Sell then buying l else selling l) =
             \<lparr> s_id = wanted_item_id r, s_amount = wanted_quantity r,
               s_name = i_name wi, s_icon = i_icon wi, s_rarity = i_rarity wi \<rparr> \<and>
           (if listing_type r = Sell then selling l else buying l) =
             \<lparr> s_id = Some (item_id r), s_amount = Some (quantity r),
               s_name = i_name (item r), s_icon = i_icon (item r),
               s_rarity = i_rarity (item r) \<rparr>)
      \<and> legacy_counter_side r =
            Inr \<lparr> s_id = wanted_item_id r, s_amount = wanted_quantity r,
                  s_name = i_name wi, s_icon = i_icon wi, s_rarity = None \<rparr>)"
  by (cases "listing_type r")
     (simp_all add: transformApiListing_def legacy_counter_side_def seeds_icon_def Let_def)

theorem transformApiListing_settlement_witness:
  "listing_type (exApi ''C'' Sell (Some 5) None) = Sell
   \<and> price (exApi ''C'' Sell (Some 5) None) = Some 5
   \<and> (\<exists>l. transformApiListing (exApi ''C'' Sell (Some 5) None) = Inr l \<and> l_type l = Sell \<and>
           buying l =
             \<lparr> s_id = Some ''assorted-seeds'', s_amount = Some 5,
               s_name = ''Assorted Seeds'',
               s_icon = ''https://cdn.metaforge.app/arc-raiders/icons/assorted-seeds.webp'',
               s_rarity = None \<rparr>)
   \<and> listing_type (exApi ''D'' Buy None (Some ''copper'')) = Buy
   \<and> price (exApi ''D'' Buy None (Some ''copper'')) = None
   \<and> wanted_item (exApi ''D'' Buy None (Some ''copper'')) = Some (exItem ''copper'')
   \<and> (\<exists>l. transformApiListing (exApi ''D'' Buy None (Some ''copper'')) = Inr l \<and> l_type l = Buy \<and>
           selling l =
             \<lparr> s_id = Some ''copper'', s_amount = Some 2, s_name = ''copper'',
               s_icon = ''icon'', s_rarity = None \<rparr>)"
proof -
  have p1: "price (exApi ''C'' Sell (Some 5) None) = Some 5"
    and t1: "listing_type (exApi ''C'' Sell (Some 5) None) = Sell"
    by (simp_all add: exApi_def)
  have p2: "price (exApi ''D'' Buy None (Some ''copper'')) = None"
    and w2: "wanted_item (exApi ''D'' Buy None (Some ''copper'')) = Some (exItem ''copper'')"
    and i2: "wanted_item_id (exApi ''D'' Buy None (Some ''copper'')) = Some ''copper''"
    and q2: "wanted_quantity (exApi ''D'' Buy None (Some ''copper'')) = Some 2"
    and t2: "listing_type (exApi ''D'' Buy None (Some ''copper'')) = Buy"
    by (simp_all add: exApi_def)
  from p1 obtain l1 where l1: "transformApiListing (exApi ''C'' Sell (Some 5) None) = Inr l1"
    and y1: "l_type l1 = listing_type (exApi ''C'' Sell (Some 5) None)"
    and c1: "(if listing_type (exApi ''C'' Sell (Some 5) None) = Sell
              then buying l1 else selling l1) =
             \<lparr> s_id = Some ''assorted-seeds'', s_amount = Some 5,
               s_name = ''Assorted Seeds'',
               s_icon = ''https://cdn.metaforge.app/arc-raiders/icons/assorted-seeds.webp'',
               s_rarity = None \<rparr>"
    using transformApiListing_settlement [of "exApi ''C'' Sell (Some 5) None" 5] by blast
  from y1 c1 have b1: "l_type l1 = Sell \<and> buying l1 =
             \<lparr> s_id = Some ''assorted-seeds'', s_amount = Some 5,
               s_name = ''Assorted Seeds'',
               s_icon = ''https://cdn.metaforge.app/arc-raiders/icons/assorted-seeds.webp'',
               s_rarity = None \<rparr>"
    by (simp add: t1)
  from p2 w2 obtain l2 where l2: "transformApiListing (exApi ''D'' Buy None (Some ''copper'')) = Inr l2"
    and y2: "l_type l2 = listing_type (exApi ''D'' Buy None (Some ''copper''))"
    and c2: "(if listing_type (exApi ''D'' Buy None (Some ''copper'')) = Sell
              then buying l2 else selling l2) =
             \<lparr> s_id = wanted_item_id (exApi ''D'' Buy None (Some ''copper'')),
               s_amount = wanted_quantity (exApi ''D'' Buy None (Some ''copper'')),
               s_name = i_name (exItem ''copper''), s_icon = i_icon (exItem ''copper''),
               s_rarity = i_rarity (exItem ''copper'') \<rparr>"
    using transformApiListing_settlement
      [of "exApi ''D'' Buy None (Some ''copper'')" _ "exItem ''copper''"] by blast
  from y2 c2 have b2: "l_type l2 = Buy \<and> selling l2 =
             \<lparr> s_id = Some ''copper'', s_amount = Some 2, s_name = ''copper'',
               s_icon = ''icon'', s_rarity = None \<rparr>"
    by (simp add: t2 i2 q2 exItem_def)
  from t1 p1 l1 b1 t2 p2 w2 l2 b2 show ?thesis by blast
qed

lemma transformApiListing_throws:
  "price r = None \<Longrightarrow> wanted_item r = None
     \<Longrightarrow> transformApiListing r = Inl (TypeError ''Cannot read properties of null'')"
  by (simp add: transformApiListing_def Let_def)

lemma transformApiListing_Inl:
  "transformApiListing r = Inl e \<Longrightarrow> e = TypeError ''Cannot read properties of null''"
  by (auto simp: transformApiListing_def Let_def split: if_splits option.splits)

lemma map_transform_Inl:
  "map_transform raw = Inl e \<Longrightarrow> e = TypeError ''Cannot read properties of null''"
  by (induction raw) (auto split: sum.splits dest: transformApiListing_Inl)

lemma map_transform_fails:
  "r \<in> set raw \<Longrightarrow> transformApiListing r = Inl e \<Longrightarrow> \<exists>e'. map_transform raw = Inl e'"
  by (induction raw) (auto split: sum.splits)

lemma map_transform_Inr:
  "map_transform raw = Inr ls \<Longrightarrow> map transformApiListing raw = map Inr ls"
  by (induction raw arbitrary: ls) (auto split: sum.splits)

text \<open>
  Claim C5, amended. A record with no price and no wanted item (so in particular one
  with none of the three barter fields) makes \<open>transformApiListing\<close> throw, and the
  exception ends the whole fetch of its batch: \<open>getSellListings\<close> and
  \<open>getBuyListings\<close> rethrow it after the request and return no listing at all.
\<close>

theorem malformed_record_fails_fetch:
  assumes "r \<in> set raw"
    and "price r = None"
    and "wanted_item r = None"
  shows "(axios_get env Sell = Inr raw \<longrightarrow>
            getSellListings env w
              = (Inl (TypeError ''Cannot read properties of null''),
                 w\<lparr> effects := effects w @ [HttpGet Sell] \<rparr>))
       \<and> (axios_get env Buy = Inr raw \<longrightarrow>
            getBuyListings env w
              = (Inl (TypeError ''Cannot read properties of null''),
                 w\<lparr> effects := effects w @ [HttpGet Buy] \<rparr>))"
proof -
  from assms(2,3) have "transformApiListing r = Inl (TypeError ''Cannot read properties of null'')"
    by (rule transformApiListing_throws)
  with assms(1) obtain e where e: "map_transform raw = Inl e"
    using map_transform_fails by blast
  then have "e = TypeError ''Cannot read properties of null''" by (rule map_transform_Inl)
  with e show ?thesis
    by (simp add: getSellListings_def getBuyListings_def getListingsOfType_def Let_def)
qed

theorem malformed_record_fails_fetch_witness:
  "exApi ''D'' Sell None None \<in> set exSellResponse
   \<and> price (exApi ''D'' Sell None None) = None
   \<and> wanted_item (exApi ''D'' Sell None None) = None
   \<and> axios_get exEnvMalformed Sell = Inr exSellResponse
   \<and> fst (getSellListings exEnvMalformed exWorld)
        = Inl (TypeError ''Cannot read properties of null'')
   \<and> exApi ''E'' Buy None None \<in> set exBuyResponse
   \<and> price (exApi ''E'' Buy None None) = None
   \<and> wanted_item (exApi ''E'' Buy None None) = None
   \<and> axios_get exEnvMalformed Buy = Inr exBuyResponse
   \<and> fst (getBuyListings exEnvMalformed exWorld)
        = Inl (TypeError ''Cannot read properties of null'')"
proof -
  have s: "exApi ''D'' Sell None None \<in> set exSellResponse"
    "price (exApi ''D'' Sell None None) = None"
    "wanted_item (exApi ''D'' Sell None None) = None"
    "axios_get exEnvMalformed Sell = Inr exSellResponse"
    by (simp_all add: exSellResponse_def exApi_def exEnvMalformed_def)
  have b: "exApi ''E'' Buy None None \<in> set exBuyResponse"
    "price (exApi ''E'' Buy None None) = None"
    "wanted_item (exApi ''E'' Buy None None) = None"
    "axios_get exEnvMalformed Buy = Inr exBuyResponse"
    by (simp_all add: exBuyResponse_def exApi_def exEnvMalformed_def)
  have "fst (getSellListings exEnvMalformed exWorld)
        = Inl (TypeError ''Cannot read properties of null'')"
    using malformed_record_fails_fetch [OF s(1) s(2) s(3), of exEnvMalformed exWorld] s(4)
    by simp
  moreover have "fst (getBuyListings exEnvMalformed exWorld)
        = Inl (TypeError ''Cannot read properties of null'')"
    using malformed_record_fails_fetch [OF b(1) b(2) b(3), of exEnvMalformed exWorld] b(4)
    by simp
  ultimately show ?thesis using s b by blast
qed

text \<open>
  Claim C5 as stated fails: the sell response holds the well-formed record \<open>C\<close> and
  the malformed record \<open>D\<close>; \<open>C\<close> alone is normalized without error, but the fetch of
  the two returns the exception and not the listing of \<open>C\<close>.
\<close>

theorem malformed_record_fails_whole_batch_counterexample:
  "axios_get exEnvMalformed Sell
     = Inr [exApi ''C'' Sell (Some 5) None, exApi ''D'' Sell None None]
   \<and> price (exApi ''D'' Sell None None) = None
   \<and> wanted_item_id (exApi ''D'' Sell None None) = None
   \<and> wanted_quantity (exApi ''D'' Sell None None) = None
   \<and> wanted_item (exApi ''D'' Sell None None) = None
   \<and> map_transform [exApi ''C'' Sell (Some 5) None]
        = Inr [(exListing ''C'' ''active'')\<lparr> buying :=
                 \<lparr> s_id = Some ''assorted-seeds'', s_amount = Some 5,
                   s_name = ''Assorted Seeds'', s_icon = seeds_icon, s_rarity = None \<rparr> \<rparr>]
   \<and> fst (getSellListings exEnvMalformed exWorld)
        = Inl (TypeError ''Cannot read properties of null'')"
  by code_simp

subsection \<open>Buttons\<close>

lemma split_nonempty: "split sep s \<noteq> []"
  by (induction s) (auto split: list.splits)

lemma split_no_sep: "sep \<notin> set s \<Longrightarrow> split sep s = [s]"
  by (induction s) auto

lemma split_append_sep: "sep \<notin> set s \<Longrightarrow> split sep (s @ sep # rest) = s # split sep rest"
  by (induction s) (auto simp: split_nonempty split: list.splits)

lemma digit_char_is_digit: "d < 10 \<Longrightarrow> is_digit (digit_char d)"
  by (simp add: is_digit_def digit_char_def)

lemma digit_val_digit_char: "d < 10 \<Longrightarrow> digit_val (digit_char d) = d"
  by (simp add: digit_val_def digit_char_def)

lemma showNat_digits: "c \<in> set (showNat n) \<Longrightarrow> is_digit c"
proof (induction n arbitrary: c rule: showNat.induct)
  case (1 n)
  show ?case
  proof (cases "n < 10")
    case True
    with 1(2) show ?thesis by (subst (asm) showNat.simps) (simp add: digit_char_is_digit)
  next
    case False
    with 1 show ?thesis
      by (subst (asm) (2) showNat.simps) (auto simp: digit_char_is_digit)
  qed
qed

lemma showNat_nonempty: "showNat n \<noteq> []"
  by (subst showNat.simps) simp

lemma showNat_value: "digits_value (showNat n) = n"
proof (induction n rule: showNat.induct)
  case (1 n)
  show ?case
  proof (cases "n < 10")
    case True
    then show ?thesis
      by (subst showNat.simps) (simp add: digits_value_def digit_val_digit_char)
  next
    case False
    with 1 have "digits_value (showNat (n div 10)) = n div 10" by simp
    with False show ?thesis
      by (subst showNat.simps) (simp add: digits_value_def digit_val_digit_char)
  qed
qed

lemma digit_not_white: "is_digit c \<Longrightarrow> \<not> is_white c"
  by (auto simp: is_digit_def is_white_def)

lemma digit_not_sign: "is_digit c \<Longrightarrow> c \<noteq> CHR ''-'' \<and> c \<noteq> CHR ''+'' \<and> c \<noteq> CHR '':''"
  by (auto simp: is_digit_def)

lemma parseInt10_showNat: "parseInt10 (showNat n) = Some (int n)"
proof -
  obtain c cs where s: "showNat n = c # cs"
    using showNat_nonempty [of n] by (cases "showNat n") auto
  have all: "\<forall>x \<in> set (c # cs). is_digit x"
    using showNat_digits [of _ n] by (simp add: s)
  then have c: "is_digit c" by simp
  have tw: "takeWhile is_digit (c # cs) = c # cs"
    using all by (simp only: takeWhile_eq_all_conv) 
  have dw: "dropWhile is_white (c # cs) = c # cs"
    using digit_not_white [OF c] by simp
  have v: "digits_value (c # cs) = n" using showNat_value [of n] by (simp add: s)
  show ?thesis
    unfolding s parseInt10_def dw Let_def
    using digit_not_sign [OF c] tw v by simp
qed

lemma showNat_no_colon: "CHR '':'' \<notin> set (showNat n)"
  using showNat_digits [of "CHR '':''" n] digit_not_sign [of "CHR '':''"] by blast

lemma split_customId:
  assumes "CHR '':'' \<notin> set (l_id l)"
  shows "split CHR '':'' (makeCustomId l p) = [''buy'', l_id l, showNat p]"
proof -
  have "makeCustomId l p = ''buy'' @ CHR '':'' # (l_id l @ CHR '':'' # showNat p)"
    by (simp add: makeCustomId_def)
  moreover have "CHR '':'' \<notin> set ''buy''" by simp
  ultimately have "split CHR '':'' (makeCustomId l p)
      = ''buy'' # split CHR '':'' (l_id l @ CHR '':'' # showNat p)"
    using split_append_sep [of "CHR '':''" "''buy''" "l_id l @ CHR '':'' # showNat p"]
    by simp
  also have "\<dots> = ''buy'' # l_id l # split CHR '':'' (showNat p)"
    using assms split_append_sep [of "CHR '':''" "l_id l" "showNat p"] by simp
  also have "\<dots> = [''buy'', l_id l, showNat p]"
    by (simp only: split_no_sep [OF showNat_no_colon])
  finally show ?thesis .
qed

lemma parse_customId:
  "CHR '':'' \<notin> set (l_id l)
     \<Longrightarrow> parseButtonCustomId (makeCustomId l p)
           = Some \<lparr> action = ''buy'', listing_id = l_id l, batch_position = Some (int p) \<rparr>"
  by (simp add: split_customId parseButtonCustomId_def parseInt10_showNat)

text \<open>When the loop of \<open>createBatchButtons\<close> returns, and what it returns then.\<close>

lemma createBatchButtons_loop_returns:
  "length ls + i \<le> 5
     \<Longrightarrow> \<forall>k < length ls. length (makeCustomId (ls ! k) (i + k + 1)) \<le> 100
     \<Longrightarrow> createBatchButtons_loop ls i bs
           = Inr (bs @ map (\<lambda>k. \<lparr> customId = makeCustomId (ls ! k) (i + k + 1),
                                   label = ''Buy Item '' @ showNat (i + k + 1),
                                   emoji = i + k \<rparr>)
                           [0 ..< length ls])"
proof (induction ls arbitrary: i bs)
  case Nil
  then show ?case by simp
next
  case (Cons l ls)
  from Cons.prems(1) have i: "i < 5" and n: "length ls + (i + 1) \<le> 5" by simp_all
  from Cons.prems(2) have h: "length (makeCustomId l (i + 1)) \<le> 100" by fastforce
  have t: "\<forall>k < length ls. length (makeCustomId (ls ! k) (i + 1 + k + 1)) \<le> 100"
  proof (intro allI impI)
    fix k assume "k < length ls"
    then have "Suc k < length (l # ls)" by simp
    with Cons.prems(2) have "length (makeCustomId ((l # ls) ! Suc k) (i + Suc k + 1)) \<le> 100"
      by blast
    then show "length (makeCustomId (ls ! k) (i + 1 + k + 1)) \<le> 100" by simp
  qed
  have m: "map (\<lambda>k. \<lparr> customId = makeCustomId ((l # ls) ! k) (i + k + 1),
                      label = ''Buy Item '' @ showNat (i + k + 1), emoji = i + k \<rparr>)
               [0 ..< length (l # ls)]
         = \<lparr> customId = makeCustomId l (i + 1), label = ''Buy Item '' @ showNat (i + 1),
             emoji = i \<rparr>
           # map (\<lambda>k. \<lparr> customId = makeCustomId (ls ! k) (i + 1 + k + 1),
                         label = ''Buy Item '' @ showNat (i + 1 + k + 1),
                         emoji = i + 1 + k \<rparr>)
                 [0 ..< length ls]"
    by (simp add: map_upt_Suc del: upt_Suc)
  show ?case
    using i h Cons.IH [OF n t] by (simp only: m) simp
qed

lemma createBatchButtons_loop_throws:
  "(ls \<noteq> [] \<and> 5 < length ls + i)
     \<or> (\<exists>k < length ls. 100 < length (makeCustomId (ls ! k) (i + k + 1)))
     \<Longrightarrow> \<exists>e. createBatchButtons_loop ls i bs = Inl e"
proof (induction ls arbitrary: i bs)
  case Nil
  then show ?case by simp
next
  case (Cons l ls)
  show ?case
  proof (cases "100 < length (makeCustomId l (i + 1)) \<or> \<not> i < 5")
    case True
    then show ?thesis by auto
  next
    case False
    then have i: "i < 5" and h: "\<not> 100 < length (makeCustomId l (i + 1))" by simp_all
    have "(ls \<noteq> [] \<and> 5 < length ls + (i + 1))
          \<or> (\<exists>k < length ls. 100 < length (makeCustomId (ls ! k) (i + 1 + k + 1)))"
    proof (cases "\<exists>k < length (l # ls). 100 < length (makeCustomId ((l # ls) ! k) (i + k + 1))")
      case True
      then obtain k where k: "k < length (l # ls)"
        and g: "100 < length (makeCustomId ((l # ls) ! k) (i + k + 1))" by blast
      from g h have "k \<noteq> 0" by (cases k) auto
      then obtain j where j: "k = Suc j" by (cases k) auto
      with k g have "j < length ls \<and> 100 < length (makeCustomId (ls ! j) (i + 1 + j + 1))"
        by simp
      then show ?thesis by blast
    next
      case False
      with Cons.prems have "5 < length (l # ls) + i" by blast
      with i have "ls \<noteq> [] \<and> 5 < length ls + (i + 1)" by auto
      then show ?thesis by blast
    qed
    then obtain e where "createBatchButtons_loop ls (i + 1)
        (bs @ [\<lparr> customId = makeCustomId l (i + 1), label = ''Buy Item '' @ showNat (i + 1),
                  emoji = i \<rparr>]) = Inl e"
      using Cons.IH by blast
    with i h show ?thesis by simp
  qed
qed

text \<open>
  Claim C10, amended. For a batch of at most five listings whose custom ids (\<open>buy:\<close>,
  the id, a colon and the position) have at most 100 characters each,
  \<open>createBatchButtons\<close> returns one button per listing, and for a position \<open>p\<close> from 1
  to the number of listings whose listing id has no colon, the custom id of the button
  at \<open>p\<close> is that string and \<open>parseButtonCustomId\<close> reads it back as action \<open>buy\<close>,
  that id and position \<open>p\<close>. For every other batch \<open>createBatchButtons\<close> throws and
  gives no button. The string built for a listing whose id has no colon is read back in
  the same way whatever the batch. \<open>parseButtonCustomId\<close> returns \<open>null\<close> for every
  string that does not split at colons into exactly three parts of which the first is
  \<open>buy\<close>.
\<close>

theorem button_customId_roundtrip:
  "(length (listings batch) \<le> 5
      \<and> (\<forall>k < length (listings batch).
            length (makeCustomId (listings batch ! k) (k + 1)) \<le> 100)
      \<longrightarrow> (\<exists>buttons. createBatchButtons batch = Inr buttons
            \<and> length buttons = length (listings batch)
            \<and> (\<forall>p. 1 \<le> p \<and> p \<le> length (listings batch)
                    \<and> CHR '':'' \<notin> set (l_id (listings batch ! (p - 1)))
                  \<longrightarrow> customId (buttons ! (p - 1))
                        = ''buy:'' @ l_id (listings batch ! (p - 1)) @ '':'' @ showNat p
                      \<and> parseButtonCustomId (customId (buttons ! (p - 1)))
                        = Some \<lparr> action = ''buy'',
                                 listing_id = l_id (listings batch ! (p - 1)),
                                 batch_position = Some (int p) \<rparr>)))
   \<and> (\<not> (length (listings batch) \<le> 5
          \<and> (\<forall>k < length (listings batch).
                length (makeCustomId (listings batch ! k) (k + 1)) \<le> 100))
      \<longrightarrow> (\<exists>e. createBatchButtons batch = Inl e))
   \<and> (CHR '':'' \<notin> set (l_id (listing :: Listing))
      \<longrightarrow> parseButtonCustomId (''buy:'' @ l_id listing @ '':'' @ showNat q)
            = Some \<lparr> action = ''buy'', listing_id = l_id listing,
                     batch_position = Some (int q) \<rparr>)
   \<and> ((\<nexists>a b. split CHR '':'' s = [''buy'', a, b]) \<longrightarrow> parseButtonCustomId s = None)"
proof (intro conjI impI)
  let ?ls = "listings batch"
  let ?bs = "map (\<lambda>k. \<lparr> customId = makeCustomId (?ls ! k) (0 + k + 1),
                        label = ''Buy Item '' @ showNat (0 + k + 1), emoji = 0 + k \<rparr>)
                 [0 ..< length ?ls]"
  assume a: "length ?ls \<le> 5 \<and> (\<forall>k < length ?ls. length (makeCustomId (?ls ! k) (k + 1)) \<le> 100)"
  then have "createBatchButtons_loop ?ls 0 [] = Inr ([] @ ?bs)"
    by (intro createBatchButtons_loop_returns) simp_all
  then have r: "createBatchButtons batch = Inr ?bs" by (simp add: createBatchButtons_def)
  have len: "length ?bs = length ?ls" by simp
  have rt: "customId (?bs ! (p - 1)) = ''buy:'' @ l_id (?ls ! (p - 1)) @ '':'' @ showNat p
          \<and> parseButtonCustomId (customId (?bs ! (p - 1)))
            = Some \<lparr> action = ''buy'', listing_id = l_id (?ls ! (p - 1)),
                     batch_position = Some (int p) \<rparr>"
    if h: "1 \<le> p \<and> p \<le> length ?ls \<and> CHR '':'' \<notin> set (l_id (?ls ! (p - 1)))" for p
  proof -
    from h obtain i where pi: "p = Suc i" and i: "i < length ?ls" by (cases p) auto
    have e: "p - 1 = i" by (simp add: pi)
    have c: "customId (?bs ! i) = makeCustomId (?ls ! i) p" using i by (simp add: pi)
    from h have "CHR '':'' \<notin> set (l_id (?ls ! i))" by (simp add: pi)
    then have pr: "parseButtonCustomId (makeCustomId (?ls ! i) p)
            = Some \<lparr> action = ''buy'', listing_id = l_id (?ls ! i),
                     batch_position = Some (int p) \<rparr>"
      by (rule parse_customId)
    have m: "makeCustomId (?ls ! i) p = ''buy:'' @ l_id (?ls ! i) @ '':'' @ showNat p"
      by (simp add: makeCustomId_def)
    from c m have c': "customId (?bs ! i) = ''buy:'' @ l_id (?ls ! i) @ '':'' @ showNat p"
      by (rule trans)
    from c pr have pr': "parseButtonCustomId (customId (?bs ! i))
            = Some \<lparr> action = ''buy'', listing_id = l_id (?ls ! i),
                     batch_position = Some (int p) \<rparr>"
      by (simp only:)
    from c' pr' show ?thesis unfolding e by (rule conjI)
  qed
  show "\<exists>buttons. createBatchButtons batch = Inr buttons
            \<and> length buttons = length ?ls
            \<and> (\<forall>p. 1 \<le> p \<and> p \<le> length ?ls \<and> CHR '':'' \<notin> set (l_id (?ls ! (p - 1)))
                  \<longrightarrow> customId (buttons ! (p - 1))
                        = ''buy:'' @ l_id (?ls ! (p - 1)) @ '':'' @ showNat p
                      \<and> parseButtonCustomId (customId (buttons ! (p - 1)))
                        = Some \<lparr> action = ''buy'', listing_id = l_id (?ls ! (p - 1)),
                                 batch_position = Some (int p) \<rparr>)"
    using r len rt by blast
next
  let ?ls = "listings batch"
  assume n: "\<not> (length ?ls \<le> 5 \<and> (\<forall>k < length ?ls. length (makeCustomId (?ls ! k) (k + 1)) \<le> 100))"
  then have "(?ls \<noteq> [] \<and> 5 < length ?ls + 0)
      \<or> (\<exists>k < length ?ls. 100 < length (makeCustomId (?ls ! k) (0 + k + 1)))"
    by (cases "length ?ls \<le> 5") (auto simp: not_le)
  then show "\<exists>e. createBatchButtons batch = Inl e"
    unfolding createBatchButtons_def by (rule createBatchButtons_loop_throws)
next
  assume "CHR '':'' \<notin> set (l_id listing)"
  then show "parseButtonCustomId (''buy:'' @ l_id listing @ '':'' @ showNat q)
            = Some \<lparr> action = ''buy'', listing_id = l_id listing,
                     batch_position = Some (int q) \<rparr>"
    using parse_customId [of listing q] by (simp add: makeCustomId_def)
next
  assume n: "\<nexists>a b. split CHR '':'' s = [''buy'', a, b]"
  have "length (split CHR '':'' s) = 3 \<Longrightarrow> split CHR '':'' s ! 0 = ''buy'' \<Longrightarrow> False"
  proof -
    assume l: "length (split CHR '':'' s) = 3" and h: "split CHR '':'' s ! 0 = ''buy''"
    from l obtain x y z where "split CHR '':'' s = [x, y, z]"
      by (auto simp: length_Suc_conv numeral_3_eq_3)
    with h n show False by auto
  qed
  then show "parseButtonCustomId s = None"
    by (auto simp: parseButtonCustomId_def Let_def)
qed

theorem button_customId_roundtrip_witness:
  "length (listings exBatch) \<le> 5
   \<and> length (makeCustomId (listings exBatch ! 0) 1) \<le> 100
   \<and> length (makeCustomId (listings exBatch ! 1) 2) \<le> 100
   \<and> CHR '':'' \<notin> set (l_id (listings exBatch ! (2 - 1)))
   \<and> (\<exists>buttons. createBatchButtons exBatch = Inr buttons \<and> length buttons = 2
         \<and> customId (buttons ! (2 - 1)) = ''buy:B:2''
         \<and> parseButtonCustomId (customId (buttons ! (2 - 1)))
             = Some \<lparr> action = ''buy'', listing_id = ''B'', batch_position = Some 2 \<rparr>)
   \<and> \<not> length (listings exSixBatch) \<le> 5
   \<and> (\<exists>e. createBatchButtons exSixBatch = Inl e)
   \<and> split CHR '':'' ''sell:B:2'' = [''sell'', ''B'', ''2'']
   \<and> parseButtonCustomId ''sell:B:2'' = None"
proof -
  have n2: "length (listings exBatch) = 2" by (simp add: exBatch_def)
  have c0: "length (makeCustomId (listings exBatch ! 0) 1) \<le> 100" by code_simp
  have c1: "length (makeCustomId (listings exBatch ! 1) 2) \<le> 100" by code_simp
  have all: "\<forall>k < length (listings exBatch).
               length (makeCustomId (listings exBatch ! k) (k + 1)) \<le> 100"
  proof (intro allI impI)
    fix k assume "k < length (listings exBatch)"
    then have "k = 0 \<or> k = Suc 0" by (auto simp: n2)
    moreover have "length (makeCustomId (listings exBatch ! 0) (0 + 1)) \<le> 100" by code_simp
    moreover have "length (makeCustomId (listings exBatch ! Suc 0) (Suc 0 + 1)) \<le> 100"
      by code_simp
    ultimately show "length (makeCustomId (listings exBatch ! k) (k + 1)) \<le> 100" by blast
  qed
  have nc: "CHR '':'' \<notin> set (l_id (listings exBatch ! (2 - 1)))"
    by (simp add: exBatch_def exListing_def)
  have idB: "l_id (listings exBatch ! Suc 0) = ''B''" by (simp add: exBatch_def exListing_def)
  have two: "showNat 2 = ''2''" by code_simp
  have six: "\<not> length (listings exSixBatch) \<le> 5" by (simp add: exSixBatch_def)
  have sp: "split CHR '':'' ''sell:B:2'' = [''sell'', ''B'', ''2'']" by simp
  then have ne: "\<nexists>a b. split CHR '':'' ''sell:B:2'' = [''buy'', a, b]" by simp
  note t = button_customId_roundtrip [of exBatch undefined 0 "''sell:B:2''"]
  from t n2 all obtain buttons where b: "createBatchButtons exBatch = Inr buttons"
    and bl: "length buttons = length (listings exBatch)"
    and br: "\<And>p. 1 \<le> p \<and> p \<le> length (listings exBatch)
                    \<and> CHR '':'' \<notin> set (l_id (listings exBatch ! (p - 1)))
                  \<Longrightarrow> customId (buttons ! (p - 1))
                        = ''buy:'' @ l_id (listings exBatch ! (p - 1)) @ '':'' @ showNat p
                      \<and> parseButtonCustomId (customId (buttons ! (p - 1)))
                        = Some \<lparr> action = ''buy'',
                                 listing_id = l_id (listings exBatch ! (p - 1)),
                                 batch_position = Some (int p) \<rparr>"
    by auto
  have hyp: "1 \<le> (2::nat) \<and> 2 \<le> length (listings exBatch)
                \<and> CHR '':'' \<notin> set (l_id (listings exBatch ! (2 - 1)))"
    using nc by (simp add: n2)
  note r2 = br [OF hyp]
  have x: "customId (buttons ! (2 - 1)) = ''buy:B:2''"
    using r2 [THEN conjunct1] by (simp add: idB two)
  have y: "parseButtonCustomId (customId (buttons ! (2 - 1)))
             = Some \<lparr> action = ''buy'', listing_id = ''B'', batch_position = Some 2 \<rparr>"
    using r2 [THEN conjunct2] by (simp add: idB)
  from bl n2 have bl2: "length buttons = 2" by simp
  from button_customId_roundtrip [of exSixBatch undefined 0 "''sell:B:2''"] six
  have thr: "\<exists>e. createBatchButtons exSixBatch = Inl e" by blast
  from t ne have q: "parseButtonCustomId ''sell:B:2'' = None" by blast
  have ex: "\<exists>buttons. createBatchButtons exBatch = Inr buttons \<and> length buttons = 2
         \<and> customId (buttons ! (2 - 1)) = ''buy:B:2''
         \<and> parseButtonCustomId (customId (buttons ! (2 - 1)))
             = Some \<lparr> action = ''buy'', listing_id = ''B'', batch_position = Some 2 \<rparr>"
    using b bl2 x y by blast
  from n2 have le: "length (listings exBatch) \<le> 5" by simp
  from le c0 c1 nc ex six thr sp q show ?thesis by blast
qed

text \<open>
  Claim C10 as stated fails. In a batch of six listings no id has a colon, and in a batch
  of one listing with an id of 95 characters the id has none either, but
  \<open>createBatchButtons\<close> throws on both and generates no button, so there is no
  generated custom id to read back.
\<close>

theorem button_customId_roundtrip_counterexample:
  "length (listings exSixBatch) = 6
   \<and> list_all (\<lambda>l. CHR '':'' \<notin> set (l_id l)) (listings exSixBatch)
   \<and> createBatchButtons exSixBatch = Inl (ValidationError ''emoji undefined'')
   \<and> length (listings exLongBatch) = 1
   \<and> list_all (\<lambda>l. CHR '':'' \<notin> set (l_id l)) (listings exLongBatch)
   \<and> length (makeCustomId (listings exLongBatch ! 0) 1) = 101
   \<and> createBatchButtons exLongBatch
        = Inl (ValidationError ''custom id of more than 100 characters'')"
  by code_simp

subsection \<open>Configuration\<close>

text \<open>
  Claim C9 at a poll interval below the minimum. With \<open>POLL_INTERVAL=500\<close> the loaded
  configuration has the interval 500, and with \<open>POLL_INTERVAL=fast\<close> it has \<open>NaN\<close>:
  the validation of \<open>loadConfig\<close> announces the default of 5000 and does not apply it.
\<close>

theorem loadConfig_keeps_invalid_interval:
  "loadConfig exEnvironment
     = Inr \<lparr> discord_token = ''token'', discord_channelId = ''ch'',
             polling_interval = Some 500, database_path = ''./data/listings.db'',
             logging_level = ''info'', autoPurchase_enabled = True \<rparr>
   \<and> loadConfig exEnvironmentText
     = Inr \<lparr> discord_token = ''token'', discord_channelId = ''ch'',
             polling_interval = None, database_path = ''./data/listings.db'',
             logging_level = ''info'', autoPurchase_enabled = True \<rparr>"
  by code_simp

text \<open>What \<open>loadConfig\<close> does with the interval: it stores the parsed number as it is.\<close>

lemma loadConfig_interval:
  "loadConfig env = Inr c
     \<Longrightarrow> polling_interval c = parseInt10 (or_default (env ''POLL_INTERVAL'') ''5000'')"
  by (auto simp: loadConfig_def Let_def split: if_splits)

lemma parseInt10_default: "parseInt10 ''5000'' = Some 5000"
  by code_simp

subsection \<open>Status changes\<close>

text \<open>
  Claim C3 at a message with two listings. Message \<open>m1\<close> holds the tracked listings
  \<open>A\<close> at position 1 and \<open>B\<close> at position 2, both active, and the fetch reports \<open>A\<close>
  as in progress. \<open>checkStatusChanges\<close> writes the new status and then requests one
  edit of \<open>m1\<close>; the embed of the edit holds \<open>A\<close> only, numbered 1, and \<open>B\<close> is gone
  from the message.
\<close>

theorem status_edit_holds_changed_listings_only:
  "tracked_in_message exDb ''m1'' = [(1, ''A'', ''active''), (2, ''B'', ''active'')]
   \<and> map_option l_status (exFetched ''A'') = Some ''in-progress''
   \<and> map_option l_status (exFetched ''B'') = Some ''active''
   \<and> effects (checkStatusChanges exEnv exFetched exWorld)
        = [StatusUpdated ''A'' ''in-progress'', ChannelFetched ''ch'',
           MessageFetched ''ch'' ''m1'',
           MessageEdited ''m1'' (recreateBatchEmbed [exListing ''A'' ''in-progress''] 1 0)]
   \<and> edit_requests (effects (checkStatusChanges exEnv exFetched exWorld))
        = [(''m1'', [(1, ''A'', ''in-progress'')])]"
  by code_simp

subsection \<open>The polling cycle\<close>

text \<open>
  Claim C6. A call of \<open>pollListings\<close> while \<open>isProcessing\<close> is set returns at once and
  leaves the whole state as it was: no request, no write to the database, no message,
  no tracker row.
\<close>

theorem pollListings_skips_while_processing:
  "isProcessing w \<longrightarrow>
     pollListings env w = (Inr (), w)
     \<and> new_effects w (snd (pollListings env w)) = []
     \<and> db (snd (pollListings env w)) = db w"
  by (simp add: pollListings_def new_effects_def)

theorem pollListings_skips_while_processing_witness:
  "isProcessing (exWorld\<lparr> isProcessing := True \<rparr>)
   \<and> pollListings exEnvMalformed (exWorld\<lparr> isProcessing := True \<rparr>)
        = (Inr (), exWorld\<lparr> isProcessing := True \<rparr>)
   \<and> db (snd (pollListings exEnvMalformed (exWorld\<lparr> isProcessing := True \<rparr>))) = Some exDb"
proof -
  have h: "isProcessing (exWorld\<lparr> isProcessing := True \<rparr>)" by simp
  have d: "db (exWorld\<lparr> isProcessing := True \<rparr>) = Some exDb" by (simp add: exWorld_def)
  from h d show ?thesis
    using pollListings_skips_while_processing
      [of "exWorld\<lparr> isProcessing := True \<rparr>" exEnvMalformed]
    by simp
qed

text \<open>The \<open>finally\<close> of a started cycle always resets the flag.\<close>

lemma pollListings_resets_flag:
  "\<not> isProcessing w \<Longrightarrow> \<not> isProcessing (snd (pollListings env w))"
  by (auto simp: pollListings_def split: prod.splits sum.splits)

text \<open>
  Claim C7 at a failed fetch. The API cannot be reached and the listeners are those the
  program registers. The \<open>catch\<close> of \<open>pollListings\<close> calls \<open>botEvents.emitError\<close>, which
  emits \<open>'error'\<close> on an emitter with no listener for it, so the cycle ends with the
  flag reset and with an exception that leaves \<open>pollListings\<close>.
\<close>

theorem pollListings_rejects_without_error_listener:
  "axios_get exEnvDown Sell = Inl (Rejected ''ECONNREFUSED'')
   \<and> listeners exWorld ERROR = []
   \<and> fst (pollListings exEnvDown exWorld) = Inl ERR_UNHANDLED_ERROR
   \<and> effects (snd (pollListings exEnvDown exWorld)) = [HttpGet Sell, HttpGet Buy, Emitted ERROR]
   \<and> isProcessing (snd (pollListings exEnvDown exWorld)) = False"
  by code_simp

text \<open>
  No call of the cycle changes the registered listeners, so with a listener for
  \<open>'error'\<close> that returns, \<open>emitError\<close> returns and no exception leaves
  \<open>pollListings\<close>.
\<close>

lemma emit_listeners: "emit ev w = (r, w') \<Longrightarrow> listeners w' = listeners w"
  by (auto simp: emit_def Let_def split: option.splits if_splits)

lemma forEach_listeners:
  assumes "\<And>x w r w'. f x w = (r, w') \<Longrightarrow> listeners w' = listeners w"
  shows "forEach f xs w = (r, w') \<Longrightarrow> listeners w' = listeners w"
proof (induction xs arbitrary: w)
  case Nil
  then show ?case by simp
next
  case (Cons x xs)
  obtain r1 w1 where f: "f x w = (r1, w1)" by (cases "f x w")
  then have l: "listeners w1 = listeners w" by (rule assms)
  show ?case
  proof (cases r1)
    case (Inl e)
    with f Cons.prems l show ?thesis by simp
  next
    case (Inr u)
    with f Cons.prems have "forEach f xs w1 = (r, w')" by simp
    then have "listeners w' = listeners w1" by (rule Cons.IH)
    with l show ?thesis by simp
  qed
qed

lemma getListingsOfType_listeners:
  "getListingsOfType env ty w = (r, w') \<Longrightarrow> listeners w' = listeners w"
  by (auto simp: getListingsOfType_def Let_def split: sum.splits)

lemma getAllListings_listeners:
  "getAllListings env w = (r, w') \<Longrightarrow> listeners w' = listeners w"
  by (auto simp: getAllListings_def getSellListings_def getBuyListings_def
           split: prod.splits sum.splits dest!: getListingsOfType_listeners)

lemma insertListing_listeners:
  "insertListing env l w = (r, w') \<Longrightarrow> listeners w' = listeners w"
  by (auto simp: insertListing_def Let_def split: sum.splits if_splits)

lemma insertListings_loop_listeners:
  "insertListings_loop env ls n w = (r, w') \<Longrightarrow> listeners w' = listeners w"
proof (induction ls arbitrary: n w)
  case Nil
  then show ?case by simp
next
  case (Cons l ls)
  obtain r1 w1 where f: "insertListing env l w = (r1, w1)" by (cases "insertListing env l w")
  then have l: "listeners w1 = listeners w" by (rule insertListing_listeners)
  show ?case
  proof (cases r1)
    case (Inl e)
    with f Cons.prems l show ?thesis by simp
  next
    case (Inr b)
    with f Cons.prems have "insertListings_loop env ls (if b then n + 1 else n) w1 = (r, w')"
      by simp
    then have "listeners w' = listeners w1" by (rule Cons.IH)
    with l show ?thesis by simp
  qed
qed

lemma insertPostedListing_listeners:
  "insertPostedListing env lid mid cid bnum bpos w = (r, w') \<Longrightarrow> listeners w' = listeners w"
  by (auto simp: insertPostedListing_def Let_def split: sum.splits if_splits)

lemma recordPosted_listeners:
  "recordPosted env mid cid bnum ls i ids w = (r, w') \<Longrightarrow> listeners w' = listeners w"
proof (induction ls arbitrary: i ids w)
  case Nil
  then show ?case by simp
next
  case (Cons l ls)
  obtain r1 w1 where f: "insertPostedListing env (l_id l) mid cid bnum (i + 1) w = (r1, w1)"
    by (cases "insertPostedListing env (l_id l) mid cid bnum (i + 1) w")
  then have l: "listeners w1 = listeners w" by (rule insertPostedListing_listeners)
  show ?case
  proof (cases r1)
    case (Inl e)
    with f Cons.prems l show ?thesis by simp
  next
    case (Inr b)
    with f Cons.prems have "recordPosted env mid cid bnum ls (i + 1) (ids @ [l_id l]) w1 = (r, w')"
      by simp
    then have "listeners w' = listeners w1" by (rule Cons.IH)
    with l show ?thesis by simp
  qed
qed

lemma markListingsAsPosted_listeners:
  "markListingsAsPosted ids w = (r, w') \<Longrightarrow> listeners w' = listeners w"
  by (auto simp: markListingsAsPosted_def split: sum.splits if_splits)

lemma forEach_emitListingPosted_listeners:
  "forEach emitListingPosted xs w = (r, w') \<Longrightarrow> listeners w' = listeners w"
proof (rule forEach_listeners)
  show "emitListingPosted x w = (r, w') \<Longrightarrow> listeners w' = listeners w" for x w r w'
    unfolding emitListingPosted_def by (rule emit_listeners)
qed

lemma forEach_emitNewListing_listeners:
  "forEach emitNewListing xs w = (r, w') \<Longrightarrow> listeners w' = listeners w"
proof (rule forEach_listeners)
  show "emitNewListing x w = (r, w') \<Longrightarrow> listeners w' = listeners w" for x w r w'
    unfolding emitNewListing_def by (rule emit_listeners)
qed

lemma postBatch_try_listeners:
  "postBatch_try env batch channelId w = (r, w') \<Longrightarrow> listeners w' = listeners w"
  unfolding postBatch_try_def Let_def emitBatchPosted_def
  by (auto split: sum.splits option.splits if_splits prod.splits
           dest!: recordPosted_listeners markListingsAsPosted_listeners emit_listeners
                  forEach_emitListingPosted_listeners)

lemma postBatchToDiscord_listeners:
  "postBatchToDiscord env batch channelId w = (r, w') \<Longrightarrow> listeners w' = listeners w"
  unfolding postBatchToDiscord_def emitError_def
  by (auto split: sum.splits prod.splits dest!: postBatch_try_listeners emit_listeners)

lemma postBatches_listeners:
  "postBatches env channelId bs n w = (r, w') \<Longrightarrow> listeners w' = listeners w"
proof (induction bs arbitrary: n w)
  case Nil
  then show ?case by simp
next
  case (Cons b bs)
  obtain r1 w1 where f: "postBatchToDiscord env b channelId w = (r1, w1)"
    by (cases "postBatchToDiscord env b channelId w")
  then have l: "listeners w1 = listeners w" by (rule postBatchToDiscord_listeners)
  show ?case
  proof (cases r1)
    case (Inl e)
    with f Cons.prems l show ?thesis by simp
  next
    case (Inr m)
    with f Cons.prems have "postBatches env channelId bs (if m \<noteq> None then n + 1 else n) w1 = (r, w')"
      by simp
    then have "listeners w' = listeners w1" by (rule Cons.IH)
    with l show ?thesis by simp
  qed
qed

lemma postListingsToDiscord_listeners:
  "postListingsToDiscord env ls channelId w = (r, w') \<Longrightarrow> listeners w' = listeners w"
  by (auto simp: postListingsToDiscord_def split: if_splits dest: postBatches_listeners)

lemma scanPosted_listeners:
  "scanPosted f ps g n w = (g', n', w') \<Longrightarrow> listeners w' = listeners w"
  by (induction f ps g n w rule: scanPosted.induct)
     (auto simp: updateListingStatus_def split: option.splits if_splits)

lemma updateMessageWithStatus_listeners:
  "listeners (snd (updateMessageWithStatus env mid cid ids bnum w)) = listeners w"
  by (auto simp: updateMessageWithStatus_def Let_def split: sum.splits option.splits if_splits)

lemma updateGroups_listeners: "listeners (updateGroups env gs w) = listeners w"
  by (induction env gs w rule: updateGroups.induct)
     (simp_all add: Let_def updateMessageWithStatus_listeners)

lemma checkStatusChanges_listeners: "listeners (checkStatusChanges env f w) = listeners w"
  by (auto simp: checkStatusChanges_def Let_def updateGroups_listeners
           split: sum.splits prod.splits dest: scanPosted_listeners)

lemma pollListings_try_listeners:
  "pollListings_try env w = (r, w') \<Longrightarrow> listeners w' = listeners w"
  unfolding pollListings_try_def Let_def insertListings_def emitNewListingsBatch_def
  by (auto simp: checkStatusChanges_listeners
           split: sum.splits prod.splits if_splits
           dest!: getAllListings_listeners insertListings_loop_listeners emit_listeners
                  forEach_emitNewListing_listeners
                  postListingsToDiscord_listeners)

lemma emit_ERROR_handled:
  "listeners w ERROR \<noteq> [] \<Longrightarrow> list_all (\<lambda>h. h = None) (listeners w ERROR)
     \<Longrightarrow> fst (emit ERROR w) = Inr ()"
proof -
  assume n: "listeners w ERROR \<noteq> []" and a: "list_all (\<lambda>h. h = None) (listeners w ERROR)"
  from a have "List.find (\<lambda>h. h \<noteq> None) (listeners w ERROR) = None"
    by (simp add: find_None_iff list_all_iff)
  with n show ?thesis by (simp add: emit_def Let_def)
qed

lemma pollListings_resolves_with_error_listener:
  assumes "listeners w ERROR \<noteq> []" and "list_all (\<lambda>h. h = None) (listeners w ERROR)"
  shows "fst (pollListings env w) = Inr ()"
proof (cases "isProcessing w")
  case True
  then show ?thesis by (simp add: pollListings_def)
next
  case False
  obtain r w' where t: "pollListings_try env (w\<lparr> isProcessing := True \<rparr>) = (r, w')"
    by (cases "pollListings_try env (w\<lparr> isProcessing := True \<rparr>)")
  then have l: "listeners w' = listeners w" using pollListings_try_listeners by fastforce
  show ?thesis
  proof (cases r)
    case (Inr u)
    with False t show ?thesis by (simp add: pollListings_def)
  next
    case (Inl e)
    from assms l have "fst (emit ERROR w') = Inr ()" by (simp add: emit_ERROR_handled)
    then obtain w'' where "emit ERROR w' = (Inr (), w'')" by (cases "emit ERROR w'") simp
    with False t Inl show ?thesis
      by (simp add: pollListings_def emitError_def)
  qed
qed

subsection \<open>Posting a batch\<close>

lemma emit_effects: "effects (snd (emit ev w)) = effects w @ [Emitted ev]"
  by (auto simp: emit_def Let_def split: option.splits)

lemma emit_db: "db (snd (emit ev w)) = db w"
  by (auto simp: emit_def Let_def split: option.splits)

lemma forEach_emit_prefix:
  "prefix (effects w) (effects (snd (forEach (\<lambda>x. emit (ev x)) xs w)))"
proof (induction xs arbitrary: w)
  case Nil
  then show ?case by simp
next
  case (Cons x xs)
  obtain r w' where e: "emit (ev x) w = (r, w')" by (cases "emit (ev x) w")
  then have p: "prefix (effects w) (effects w')"
    using emit_effects [of "ev x" w] by simp
  show ?case
  proof (cases r)
    case (Inl a)
    with e p show ?thesis by simp
  next
    case (Inr b)
    with e have "forEach (\<lambda>x. emit (ev x)) (x # xs) w = forEach (\<lambda>x. emit (ev x)) xs w'"
      by simp
    with p Cons [of w'] show ?thesis by (metis prefix_order.trans)
  qed
qed

lemma insertPostedListing_prefix:
  "prefix (effects w) (effects (snd (insertPostedListing env lid mid cid bnum bpos w)))"
  by (auto simp: insertPostedListing_def Let_def split: sum.splits)

lemma recordPosted_prefix:
  "prefix (effects w) (effects (snd (recordPosted env mid cid bnum ls i ids w)))"
proof (induction ls arbitrary: i ids w)
  case Nil
  then show ?case by simp
next
  case (Cons l ls)
  obtain r w' where e: "insertPostedListing env (l_id l) mid cid bnum (i + 1) w = (r, w')"
    by (cases "insertPostedListing env (l_id l) mid cid bnum (i + 1) w")
  then have p: "prefix (effects w) (effects w')"
    using insertPostedListing_prefix [of w env "l_id l" mid cid bnum "i + 1"] by simp
  show ?case
  proof (cases r)
    case (Inl a)
    with e p show ?thesis by simp
  next
    case (Inr b)
    with e have "recordPosted env mid cid bnum (l # ls) i ids w
        = recordPosted env mid cid bnum ls (i + 1) (ids @ [l_id l]) w'"
      by simp
    with p Cons [of w' "i + 1" "ids @ [l_id l]"] show ?thesis by (metis prefix_order.trans)
  qed
qed

lemma markListingsAsPosted_prefix:
  "prefix (effects w) (effects (snd (markListingsAsPosted ids w)))"
  by (auto simp: markListingsAsPosted_def split: sum.splits)

lemma after_send_prefix:
  "prefix (effects w2)
     (effects (snd (case recordPosted env mid t bnum ls 0 [] w2 of
                 (Inl e, w3) \<Rightarrow> (Inl e, w3)
               | (Inr listingIds, w3) \<Rightarrow>
                   (case markListingsAsPosted listingIds w3 of
                      (Inl e, w4) \<Rightarrow> (Inl e, w4)
                    | (Inr u, w4) \<Rightarrow>
                        (case emitBatchPosted ls' bnum w4 of
                           (Inl e, w5) \<Rightarrow> (Inl e, w5)
                         | (Inr u, w5) \<Rightarrow>
                             (case forEach emitListingPosted ls'' w5 of
                                (Inl e, w6) \<Rightarrow> (Inl e, w6)
                              | (Inr u, w6) \<Rightarrow> (Inr (Some mid) :: exn + string option, w6)))))))"
proof -
  obtain r3 w3 where e3: "recordPosted env mid t bnum ls 0 [] w2 = (r3, w3)"
    by (cases "recordPosted env mid t bnum ls 0 [] w2")
  then have p3: "prefix (effects w2) (effects w3)"
    using recordPosted_prefix [of w2 env mid t bnum ls 0 "[]"] by simp
  show ?thesis
  proof (cases r3)
    case (Inl a)
    with e3 p3 show ?thesis by simp
  next
    case r3: (Inr listingIds)
    obtain r4 w4 where e4: "markListingsAsPosted listingIds w3 = (r4, w4)"
      by (cases "markListingsAsPosted listingIds w3")
    then have "prefix (effects w3) (effects w4)"
      using markListingsAsPosted_prefix [of w3 listingIds] by simp
    with p3 have p4: "prefix (effects w2) (effects w4)" by (rule prefix_order.trans)
    show ?thesis
    proof (cases r4)
      case (Inl a)
      with e3 r3 e4 p4 show ?thesis by simp
    next
      case r4: (Inr u4)
      obtain r5 w5 where e5: "emitBatchPosted ls' bnum w4 = (r5, w5)"
        by (cases "emitBatchPosted ls' bnum w4")
      then have "prefix (effects w4) (effects w5)"
        using emit_effects [of BATCH_POSTED w4] by (simp add: emitBatchPosted_def)
      with p4 have p5: "prefix (effects w2) (effects w5)" by (rule prefix_order.trans)
      show ?thesis
      proof (cases r5)
        case (Inl a)
        with e3 r3 e4 r4 e5 p5 show ?thesis by simp
      next
        case r5: (Inr u5)
        obtain r6 w6 where e6: "forEach emitListingPosted ls'' w5 = (r6, w6)"
          by (cases "forEach emitListingPosted ls'' w5")
        have "emitListingPosted = (\<lambda>x. emit ((\<lambda>x. LISTING_POSTED) x))"
          by (rule ext)+ (simp add: emitListingPosted_def)
        then have "prefix (effects w5) (effects w6)"
          using forEach_emit_prefix [of w5 "\<lambda>x. LISTING_POSTED" ls''] e6 by simp
        with p5 have p6: "prefix (effects w2) (effects w6)" by (rule prefix_order.trans)
        with e3 r3 e4 r4 e5 r5 e6 show ?thesis by (cases r6) simp_all
      qed
    qed
  qed
qed

lemma postBatch_try_sent:
  assumes "send_succeeds env batch channelId w"
  shows "\<exists>buttons.
           prefix (effects w @ [ChannelFetched (or_default channelId (discord_channelId (config env))),
                               MessageSent (or_default channelId (discord_channelId (config env)))
                                 (createBatchEmbed batch) buttons])
                  (effects (snd (postBatch_try env batch channelId w)))"
proof -
  let ?t = "or_default channelId (discord_channelId (config env))"
  from assms have c: "discordClient w" and f: "channels_fetch env ?t = Inr (Some True)"
    by (simp_all add: send_succeeds_def)
  from assms obtain buttons where b: "createBatchButtons batch = Inr buttons"
    by (auto simp: send_succeeds_def split: sum.splits)
  from assms obtain mid where s: "channel_send env ?t (batch_number batch) = Inr mid"
    by (auto simp: send_succeeds_def split: sum.splits)
  have "prefix (effects w @ [ChannelFetched ?t, MessageSent ?t (createBatchEmbed batch) buttons])
               (effects (snd (postBatch_try env batch channelId w)))"
    unfolding postBatch_try_def getDiscordClient_def Let_def
    using c f b s
      after_send_prefix [where ?w2.0 = "w\<lparr>effects := effects w @ [ChannelFetched ?t]\<rparr>
            \<lparr>effects := effects (w\<lparr>effects := effects w @ [ChannelFetched ?t]\<rparr>) @
               [MessageSent ?t (createBatchEmbed batch) buttons]\<rparr>"
          and env = env and mid = mid and t = ?t and bnum = "batch_number batch"
          and ls = "listings batch" and ls' = "listings batch" and ls'' = "listings batch"]
    by simp
  then show ?thesis by blast
qed

lemma emitError_cases:
  "\<exists>r. emitError e w = (r, w\<lparr> effects := effects w @ [Emitted ERROR] \<rparr>)"
  by (auto simp: emitError_def emit_def Let_def split: option.splits)

lemma postBatchToDiscord_prefix_try:
  "prefix (effects (snd (postBatch_try env batch channelId w)))
          (effects (snd (postBatchToDiscord env batch channelId w)))"
proof -
  obtain r w' where t: "postBatch_try env batch channelId w = (r, w')"
    by (cases "postBatch_try env batch channelId w")
  show ?thesis
  proof (cases r)
    case (Inr m)
    with t show ?thesis by (simp add: postBatchToDiscord_def)
  next
    case (Inl e)
    obtain r' where "emitError e w' = (r', w'\<lparr> effects := effects w' @ [Emitted ERROR] \<rparr>)"
      using emitError_cases by blast
    with t Inl show ?thesis by (cases r') (simp_all add: postBatchToDiscord_def)
  qed
qed

lemma failedI:
  "f = (r, w\<lparr> effects := effects w @ es \<rparr>) \<Longrightarrow> r \<noteq> Inr (Some mid) \<Longrightarrow> set es \<subseteq> S
     \<Longrightarrow> \<exists>r es. f = (r, w\<lparr> effects := effects w @ es \<rparr>) \<and> r \<noteq> Inr (Some mid) \<and> set es \<subseteq> S"
  by blast

lemma postBatch_try_failed:
  assumes "\<not> send_succeeds env batch channelId w"
  shows "\<exists>r es. postBatch_try env batch channelId w = (r, w\<lparr> effects := effects w @ es \<rparr>)
           \<and> r \<noteq> Inr (Some mid)
           \<and> set es \<subseteq> {ChannelFetched (or_default channelId (discord_channelId (config env)))}"
proof -
  let ?t = "or_default channelId (discord_channelId (config env))"
  show ?thesis
  proof (cases "discordClient w")
    case False
    then have "postBatch_try env batch channelId w
        = (Inl (Error ''Discord client not initialized. Call initializeDiscordBot() first.''),
           w\<lparr> effects := effects w @ [] \<rparr>)"
      by (simp add: postBatch_try_def getDiscordClient_def)
    then show ?thesis by (rule failedI) simp_all
  next
    case client: True
    show ?thesis
    proof (cases "channels_fetch env ?t")
      case (Inl e)
      with client have "postBatch_try env batch channelId w
          = (Inl e, w\<lparr> effects := effects w @ [ChannelFetched ?t] \<rparr>)"
        by (simp add: postBatch_try_def getDiscordClient_def Let_def)
      then show ?thesis by (rule failedI) simp_all
    next
      case (Inr ch)
      show ?thesis
      proof (cases "ch = Some True")
        case False
        with client Inr have "postBatch_try env batch channelId w
            = (Inr None, w\<lparr> effects := effects w @ [ChannelFetched ?t] \<rparr>)"
          by (cases ch) (simp_all add: postBatch_try_def getDiscordClient_def Let_def)
        then show ?thesis by (rule failedI) simp_all
      next
        case True
        show ?thesis
        proof (cases "createBatchButtons batch")
          case (Inl e)
          with client Inr True have "postBatch_try env batch channelId w
              = (Inl e, w\<lparr> effects := effects w @ [ChannelFetched ?t] \<rparr>)"
            by (simp add: postBatch_try_def getDiscordClient_def Let_def)
          then show ?thesis by (rule failedI) simp_all
        next
          case built: (Inr buttons)
          with assms client Inr True obtain e
            where "channel_send env ?t (batch_number batch) = Inl e"
            by (auto simp: send_succeeds_def split: sum.splits)
          with client Inr True built have "postBatch_try env batch channelId w
              = (Inl e, w\<lparr> effects := effects w @ [ChannelFetched ?t] \<rparr>)"
            by (simp add: postBatch_try_def getDiscordClient_def Let_def)
          then show ?thesis by (rule failedI) simp_all
        qed
      qed
    qed
  qed
qed

lemma postBatch_failed:
  assumes "\<not> send_succeeds env batch channelId w"
  shows "\<exists>r es. postBatchToDiscord env batch channelId w = (r, w\<lparr> effects := effects w @ es \<rparr>)
           \<and> r \<noteq> Inr (Some mid)
           \<and> set es \<subseteq> {ChannelFetched (or_default channelId (discord_channelId (config env))),
                         Emitted ERROR}"
proof -
  let ?t = "or_default channelId (discord_channelId (config env))"
  from postBatch_try_failed [OF assms, of mid]
  obtain r es where t: "postBatch_try env batch channelId w = (r, w\<lparr> effects := effects w @ es \<rparr>)"
    and r: "r \<noteq> Inr (Some mid)" and es: "set es \<subseteq> {ChannelFetched ?t}"
    by blast
  show ?thesis
  proof (cases r)
    case (Inr m)
    with t have "postBatchToDiscord env batch channelId w = (r, w\<lparr> effects := effects w @ es \<rparr>)"
      by (simp add: postBatchToDiscord_def)
    moreover from es have "set es \<subseteq> {ChannelFetched ?t, Emitted ERROR}" by auto
    ultimately show ?thesis using r by (intro failedI)
  next
    case (Inl e)
    obtain r' where e: "emitError e (w\<lparr> effects := effects w @ es \<rparr>)
        = (r', w\<lparr> effects := effects w @ es \<rparr>
                \<lparr> effects := effects (w\<lparr> effects := effects w @ es \<rparr>) @ [Emitted ERROR] \<rparr>)"
      using emitError_cases by blast
    have p: "postBatchToDiscord env batch channelId w
        = ((case r' of Inl x \<Rightarrow> Inl x | Inr u \<Rightarrow> Inr None),
           w\<lparr> effects := effects w @ (es @ [Emitted ERROR]) \<rparr>)"
      using t Inl e by (cases r') (simp_all add: postBatchToDiscord_def)
    have q: "(case r' of Inl x \<Rightarrow> Inl x | Inr u \<Rightarrow> Inr None) \<noteq> Inr (Some mid)"
      by (cases r') simp_all
    from es have s: "set (es @ [Emitted ERROR]) \<subseteq> {ChannelFetched ?t, Emitted ERROR}"
      by auto
    from p q s show ?thesis by (rule failedI)
  qed
qed

lemma postBatch_failed_db:
  "\<not> send_succeeds env batch channelId w
     \<Longrightarrow> db (snd (postBatchToDiscord env batch channelId w)) = db w"
  using postBatch_failed [of env batch channelId w undefined] by auto

lemma postBatch_failed_effects:
  assumes "\<not> send_succeeds env batch channelId w"
    and "e \<in> set (new_effects w (snd (postBatchToDiscord env batch channelId w)))"
  shows "\<not> is_tracker_write e \<and> \<not> is_send e"
proof -
  from postBatch_failed [OF assms(1), of undefined]
  obtain r es where "postBatchToDiscord env batch channelId w = (r, w\<lparr> effects := effects w @ es \<rparr>)"
    and es: "set es \<subseteq> {ChannelFetched (or_default channelId (discord_channelId (config env))),
                         Emitted ERROR}"
    by blast
  with assms(2) have "e \<in> set es" by (simp add: new_effects_def)
  with es show ?thesis by auto
qed

lemma postBatch_writes_after_send:
  "e \<in> set (takeWhile (\<lambda>e. \<not> is_send e) (new_effects w (snd (postBatchToDiscord env batch channelId w))))
     \<Longrightarrow> \<not> is_tracker_write e"
proof (cases "send_succeeds env batch channelId w")
  case False
  assume "e \<in> set (takeWhile (\<lambda>e. \<not> is_send e) (new_effects w (snd (postBatchToDiscord env batch channelId w))))"
  then have "e \<in> set (new_effects w (snd (postBatchToDiscord env batch channelId w)))"
    by (rule set_takeWhileD [THEN conjunct1])
  with False show ?thesis using postBatch_failed_effects by blast
next
  case True
  let ?t = "or_default channelId (discord_channelId (config env))"
  let ?w' = "snd (postBatchToDiscord env batch channelId w)"
  assume a: "e \<in> set (takeWhile (\<lambda>e. \<not> is_send e) (new_effects w ?w'))"
  obtain buttons where
    "prefix (effects w @ [ChannelFetched ?t, MessageSent ?t (createBatchEmbed batch) buttons])
            (effects (snd (postBatch_try env batch channelId w)))"
    using postBatch_try_sent [OF True] by blast
  then have "prefix (effects w @ [ChannelFetched ?t,
                  MessageSent ?t (createBatchEmbed batch) buttons])
               (effects ?w')"
    using postBatchToDiscord_prefix_try by (rule prefix_order.trans)
  then obtain es where "effects ?w' = (effects w @ [ChannelFetched ?t,
                  MessageSent ?t (createBatchEmbed batch) buttons]) @ es"
    by (auto simp: prefix_def)
  then have "new_effects w ?w' = ChannelFetched ?t #
                  MessageSent ?t (createBatchEmbed batch) buttons # es"
    by (simp add: new_effects_def)
  with a show ?thesis by simp
qed

text \<open>
  Claim C8. When the send of \<open>postBatchToDiscord\<close> does not succeed (no client, the
  channel missing or not text-based, the fetch or the send rejected, or the buttons
  refused by the builder before the send), the database is
  left as it was, so no listing of the batch is marked as posted and none gets a tracker
  row, and the call writes neither. In every run, no tracker row and no posted flag is
  written before a message was sent.
\<close>

theorem postBatchToDiscord_writes_only_after_send:
  "(\<not> send_succeeds env batch channelId w \<longrightarrow>
       db (snd (postBatchToDiscord env batch channelId w)) = db w
     \<and> (\<forall>e \<in> set (new_effects w (snd (postBatchToDiscord env batch channelId w))).
           \<not> is_tracker_write e))
   \<and> (\<forall>e \<in> set (takeWhile (\<lambda>e. \<not> is_send e)
                   (new_effects w (snd (postBatchToDiscord env batch channelId w)))).
         \<not> is_tracker_write e)"
  using postBatch_failed_db postBatch_failed_effects postBatch_writes_after_send by blast

theorem postBatchToDiscord_writes_only_after_send_witness:
  "\<not> send_succeeds exEnvNoChannel exBatch None exWorld
   \<and> db (snd (postBatchToDiscord exEnvNoChannel exBatch None exWorld)) = Some exDb
   \<and> filter is_tracker_write
        (new_effects exWorld (snd (postBatchToDiscord exEnvNoChannel exBatch None exWorld))) = []
   \<and> filter is_tracker_write
        (takeWhile (\<lambda>e. \<not> is_send e)
           (new_effects exWorld (snd (postBatchToDiscord exEnv exBatch None exWorld)))) = []
   \<and> filter is_tracker_write
        (new_effects exWorld (snd (postBatchToDiscord exEnv exBatch None exWorld)))
      = [MarkedPosted [''A'', ''B'']]"
proof -
  have h: "\<not> send_succeeds exEnvNoChannel exBatch None exWorld" by code_simp
  have d: "db exWorld = Some exDb" by (simp add: exWorld_def)
  note t = postBatchToDiscord_writes_only_after_send [of exEnvNoChannel exBatch None exWorld]
  from t h d have a: "db (snd (postBatchToDiscord exEnvNoChannel exBatch None exWorld)) = Some exDb"
    by simp
  from t h have b: "filter is_tracker_write
        (new_effects exWorld (snd (postBatchToDiscord exEnvNoChannel exBatch None exWorld))) = []"
    by (simp only: filter_empty_conv) blast
  have c: "filter is_tracker_write
        (takeWhile (\<lambda>e. \<not> is_send e)
           (new_effects exWorld (snd (postBatchToDiscord exEnv exBatch None exWorld)))) = []"
    using postBatchToDiscord_writes_only_after_send [of exEnv exBatch None exWorld]
    by (simp only: filter_empty_conv) blast
  have e: "filter is_tracker_write
        (new_effects exWorld (snd (postBatchToDiscord exEnv exBatch None exWorld)))
      = [MarkedPosted [''A'', ''B'']]"
    by code_simp
  from h a b c e show ?thesis by blast
qed

end
